theory Spec2Isabelle
  imports Complex_Main
begin

section \<open>The camera adapter of gst\_camera.cc\<close>

text \<open>
  The adapter owns no algorithm of its own: every method is a short sequence of calls into
  the multimedia library, with the library's status checked after each call. The model
  therefore has three parts.
  \<^item> The object state: the members of \<open>GstCamera\<close>, pointers being \<open>handle option\<close>
    (\<open>None\<close> is the null pointer).
  \<^item> The library, a parameter of every method that reads a status from it. Each library
    function gets the events issued so far, so that a stateful library (one whose answer
    depends on everything that happened before) is an instance.
  \<^item> The events: every library call, log line, lock operation and callback of a method,
    in program order. A method takes the events issued so far and returns its result, the
    new object state when it writes a member, and the events extended by its own.
  Behaviour that C++ leaves undefined or that ends in an exception is a \<open>fault\<close>: a
  method that can reach one returns \<open>fault + result\<close>.
\<close>

subsection \<open>Library types\<close>

text \<open>
  A \<open>handle\<close> is a non-null pointer to an object of the library (or to an array on the
  heap); the adapter never looks inside one. The three enumerations are the library's.
\<close>

type_synonym handle = nat

datatype GstState =
    GST_STATE_VOID_PENDING
  | GST_STATE_NULL
  | GST_STATE_READY
  | GST_STATE_PAUSED
  | GST_STATE_PLAYING

datatype GstStateChangeReturn =
    GST_STATE_CHANGE_FAILURE
  | GST_STATE_CHANGE_SUCCESS
  | GST_STATE_CHANGE_ASYNC
  | GST_STATE_CHANGE_NO_PREROLL

datatype GstBusSyncReply = GST_BUS_DROP | GST_BUS_PASS | GST_BUS_ASYNC

datatype GstMessageType =
    GST_MESSAGE_UNKNOWN
  | GST_MESSAGE_EOS
  | GST_MESSAGE_ERROR
  | GST_MESSAGE_WARNING
  | GST_MESSAGE_INFO
  | GST_MESSAGE_TAG
  | GST_MESSAGE_BUFFERING
  | GST_MESSAGE_STATE_CHANGED
  | GST_MESSAGE_STATE_DIRTY
  | GST_MESSAGE_STEP_DONE
  | GST_MESSAGE_CLOCK_PROVIDE
  | GST_MESSAGE_CLOCK_LOST
  | GST_MESSAGE_NEW_CLOCK
  | GST_MESSAGE_STRUCTURE_CHANGE
  | GST_MESSAGE_STREAM_STATUS
  | GST_MESSAGE_APPLICATION
  | GST_MESSAGE_ELEMENT
  | GST_MESSAGE_SEGMENT_START
  | GST_MESSAGE_SEGMENT_DONE
  | GST_MESSAGE_DURATION_CHANGED
  | GST_MESSAGE_LATENCY
  | GST_MESSAGE_ASYNC_START
  | GST_MESSAGE_ASYNC_DONE
  | GST_MESSAGE_REQUEST_STATE
  | GST_MESSAGE_STEP_START
  | GST_MESSAGE_QOS
  | GST_MESSAGE_PROGRESS
  | GST_MESSAGE_TOC
  | GST_MESSAGE_RESET_TIME
  | GST_MESSAGE_STREAM_START
  | GST_MESSAGE_NEED_CONTEXT
  | GST_MESSAGE_HAVE_CONTEXT
  | GST_MESSAGE_EXTENDED
  | GST_MESSAGE_DEVICE_ADDED
  | GST_MESSAGE_DEVICE_REMOVED
  | GST_MESSAGE_PROPERTY_NOTIFY
  | GST_MESSAGE_STREAM_COLLECTION
  | GST_MESSAGE_STREAMS_SELECTED
  | GST_MESSAGE_REDIRECT
  | GST_MESSAGE_DEVICE_CHANGED
  | GST_MESSAGE_INSTANT_RATE_REQUEST
  | GST_MESSAGE_ANY

text \<open>
  A \<open>GstStructure\<close>: its name and its typed fields. \<open>gst_structure_get_int\<close> and
  \<open>gst_structure_get_string\<close> find a field of that type by name or report that there is
  none.
\<close>

record GstStructure =
  struct_name :: string
  int_fields :: "(string \<times> int) list"
  string_fields :: "(string \<times> string) list"

definition gst_structure_has_name :: "GstStructure \<Rightarrow> string \<Rightarrow> bool" where
  "gst_structure_has_name st n = (struct_name st = n)"

definition gst_structure_get_int :: "GstStructure option \<Rightarrow> string \<Rightarrow> int option" where
  "gst_structure_get_int st n = (case st of None \<Rightarrow> None | Some x \<Rightarrow> map_of (int_fields x) n)"

definition gst_structure_get_string :: "GstStructure \<Rightarrow> string \<Rightarrow> string option" where
  "gst_structure_get_string st n = map_of (string_fields st) n"

text \<open>Caps are a list of structures; \<open>gst_caps_get_structure caps 0\<close> is the first.\<close>

type_synonym GstCaps = "GstStructure list"

definition gst_caps_get_structure0 :: "GstCaps option \<Rightarrow> GstStructure option" where
  "gst_caps_get_structure0 caps =
     (case caps of None \<Rightarrow> None | Some [] \<Rightarrow> None | Some (x # _) \<Rightarrow> Some x)"

record GstPad =
  pad_id :: handle
  current_caps :: "GstCaps option"

text \<open>
  A bus message: its type, its structure if it has one, the name of the object that posted
  it (\<open>None\<close> when \<open>message->src\<close> is null) and what \<open>gst_message_parse_warning\<close> and
  \<open>gst_message_parse_error\<close> hand out: the \<open>GError\<close>'s message (\<open>None\<close> for a null
  \<open>GError\<close>) and the debug string (\<open>None\<close> for null).
\<close>

record GstMessage =
  msg_id :: handle
  msg_type :: GstMessageType
  msg_structure :: "GstStructure option"
  msg_src_name :: "string option"
  msg_gerror :: "string option"
  msg_debug :: "string option"

subsection \<open>C++ values\<close>

text \<open>
  A \<open>float\<close> by its value: a finite binary32 number is a rational, and the comparisons
  and the conversion to \<open>int\<close> depend on nothing but the value (both zeros are
  \<open>Finite 0\<close>). Every theorem below quantifies over all of \<open>cfloat\<close>, which covers
  the binary32 values.
\<close>

datatype cfloat = Finite rat | PlusInf | MinusInf | NaN

text \<open>\<open>a < b\<close> on floats: false as soon as one side is a NaN.\<close>

fun float_less :: "cfloat \<Rightarrow> cfloat \<Rightarrow> bool" where
  "float_less NaN _ = False"
| "float_less _ NaN = False"
| "float_less (Finite a) (Finite b) = (a < b)"
| "float_less (Finite _) PlusInf = True"
| "float_less (Finite _) MinusInf = False"
| "float_less MinusInf MinusInf = False"
| "float_less MinusInf _ = True"
| "float_less PlusInf _ = False"

definition float_greater :: "cfloat \<Rightarrow> cfloat \<Rightarrow> bool" where
  "float_greater a b = float_less b a"

datatype fault =
    Float_to_int_out_of_range
  | Signed_overflow
  | Uninitialised_read
  | Bad_array_new_length
  | Null_dereference
  | String_from_null

definition INT_MAX :: int where
  "INT_MAX = 2147483647"

definition INT_MIN :: int where
  "INT_MIN = - 2147483648"

text \<open>
  \<open>static_cast<int>\<close> of a float drops the fractional part; the behaviour is undefined
  when the result does not fit an \<open>int\<close> (and for infinities and NaN).
\<close>

definition truncate_toward_zero :: "rat \<Rightarrow> int" where
  "truncate_toward_zero q = (if 0 \<le> q then \<lfloor>q\<rfloor> else \<lceil>q\<rceil>)"

definition float_to_int :: "cfloat \<Rightarrow> fault + int" where
  "float_to_int z =
     (case z of
        Finite q \<Rightarrow>
          (let t = truncate_toward_zero q
           in if INT_MIN \<le> t \<and> t \<le> INT_MAX then Inr t else Inl Float_to_int_out_of_range)
      | _ \<Rightarrow> Inl Float_to_int_out_of_range)"

text \<open>\<open>a * b\<close> on \<open>int\<close>: undefined on overflow.\<close>

definition int_mul :: "int \<Rightarrow> int \<Rightarrow> fault + int" where
  "int_mul a b = (if INT_MIN \<le> a * b \<and> a * b \<le> INT_MAX then Inr (a * b) else Inl Signed_overflow)"

text \<open>The conversion of an \<open>int\<close> to \<open>uint32_t\<close>.\<close>

definition to_uint32 :: "int \<Rightarrow> nat" where
  "to_uint32 n = nat (n mod 2 ^ 32)"

subsection \<open>Events\<close>

text \<open>
  A log line is kept as the items streamed into it. An event of a library call holds the
  call's arguments and, for a call whose result the adapter reads, the result (last).
  \<open>Gst_buffer_extract b offset dest size\<close> asks for \<open>size\<close> bytes of the buffer \<open>b\<close>
  from \<open>offset\<close> on to be copied to \<open>dest\<close>. \<open>Operator_new_uint32 n a\<close> is
  \<open>new uint32_t[n]\<close> returning the array \<open>a\<close> (the allocation is taken to succeed),
  \<open>Pixels_reset old a\<close> is \<open>pixels_.reset(a)\<close>, which frees \<open>old\<close>. The four lock
  events are those of \<open>mutex_buffer_\<close>.
\<close>

datatype log_item = Str string | Str_or_null "string option" | Float_val cfloat | Int_val int

text \<open>The caps an adapter function holds: parsed from a string, or a pad's current caps.\<close>

datatype caps_ref = Caps_of_string string | Caps_of_pad handle

datatype gvalue =
    GString string
  | GBoolean bool
  | GStructurePtr GstStructure

datatype event =
    Cerr "log_item list"
  | Cout "log_item list"
  | G_printerr "log_item list"
  | Gst_pipeline_new string "handle option"
  | Gst_element_factory_make string string "handle option"
  | Gst_pipeline_get_bus handle "handle option"
  | Gst_bus_set_sync_handler handle
  | G_object_set handle "(string \<times> gvalue) list"
  | G_signal_connect handle string
  | Gst_bin_add_many handle "handle list"
  | Gst_caps_from_string string
  | Gst_caps_unref caps_ref
  | Gst_element_link_filtered handle handle string bool
  | Gst_element_link handle handle bool
  | Gst_element_set_state "handle option" GstState GstStateChangeReturn
  | Gst_element_get_state "handle option" GstStateChangeReturn
  | Gst_structure_new GstStructure
  | Gst_buffer_ref handle
  | Gst_buffer_unref handle
  | Gst_buffer_extract handle nat "handle option" nat
  | Gst_object_unref handle
  | Gst_pad_get_current_caps handle
  | Operator_new_uint32 nat handle
  | Pixels_reset "handle option" handle
  | Lock_exclusive
  | Unlock_exclusive
  | Lock_shared
  | Unlock_shared
  | OnNotifyFrameDecoded handle
  | On_notify_captured handle string
  | G_free "string option"
  | G_error_free
  | Gst_message_unref handle

subsection \<open>The library\<close>

text \<open>
  The functions of the library whose result the adapter reads. The first argument of each
  is the list of events issued before the call.
\<close>

record gst_lib =
  gst_pipeline_new :: "event list \<Rightarrow> string \<Rightarrow> handle option"
  gst_element_factory_make :: "event list \<Rightarrow> string \<Rightarrow> string \<Rightarrow> handle option"
  gst_pipeline_get_bus :: "event list \<Rightarrow> handle \<Rightarrow> handle option"
  gst_element_link_filtered :: "event list \<Rightarrow> handle \<Rightarrow> handle \<Rightarrow> string \<Rightarrow> bool"
  gst_element_link :: "event list \<Rightarrow> handle \<Rightarrow> handle \<Rightarrow> bool"
  gst_element_set_state :: "event list \<Rightarrow> handle option \<Rightarrow> GstState \<Rightarrow> GstStateChangeReturn"
  gst_element_get_state :: "event list \<Rightarrow> handle option \<Rightarrow> GstStateChangeReturn"
  operator_new_uint32 :: "event list \<Rightarrow> nat \<Rightarrow> handle"

subsection \<open>The object state\<close>

record GstCameraElements =
  pipeline :: "handle option"
  source :: "handle option"
  jpegdec :: "handle option"
  video_convert :: "handle option"
  video_sink :: "handle option"
  output' :: "handle option"
  bus :: "handle option"
  buffer :: "handle option"

text \<open>
  The members the methods use. The class declaration (gst\_camera.h) is not part of the
  sources: the members' types are read off their uses, \<open>width_\<close> and \<open>height_\<close> as
  \<open>int32_t\<close>, \<open>pixels_\<close> as the owner of a \<open>uint32_t\<close> array, \<open>on_notify_captured_\<close>
  as a callable that may be empty (it is tested before it is called). A member name ends
  in a prime here where it ends in an underscore there, and \<open>output\<close> has a prime
  because the word is reserved.
\<close>

record GstCamera =
  gst :: GstCameraElements
  pixels_' :: "handle option"
  width_' :: int
  height_' :: int
  stream_handler_' :: "handle option"
  max_zoom_level_' :: cfloat
  min_zoom_level_' :: cfloat
  on_notify_captured_' :: "handle option"

subsection \<open>Play, Pause, Stop\<close>

definition Play :: "gst_lib \<Rightarrow> GstCamera \<Rightarrow> event list \<Rightarrow> bool \<times> event list" where
  "Play lib s t0 =
     (let result = gst_element_set_state lib t0 (pipeline (gst s)) GST_STATE_PLAYING;
          t1 = t0 @ [Gst_element_set_state (pipeline (gst s)) GST_STATE_PLAYING result]
      in if result = GST_STATE_CHANGE_FAILURE
         then (False, t1 @ [Cerr [Str ''Failed to change the state to PLAYING'']])
         else if result = GST_STATE_CHANGE_ASYNC
         then (let result2 = gst_element_get_state lib t1 (pipeline (gst s));
                   t2 = t1 @ [Gst_element_get_state (pipeline (gst s)) result2]
               in if result2 = GST_STATE_CHANGE_FAILURE
                  then (True, t2 @ [Cerr [Str ''Failed to get the current state'']])
                  else (True, t2))
         else (True, t1))"

definition Pause :: "gst_lib \<Rightarrow> GstCamera \<Rightarrow> event list \<Rightarrow> bool \<times> event list" where
  "Pause lib s t0 =
     (let result = gst_element_set_state lib t0 (pipeline (gst s)) GST_STATE_PAUSED;
          t1 = t0 @ [Gst_element_set_state (pipeline (gst s)) GST_STATE_PAUSED result]
      in if result = GST_STATE_CHANGE_FAILURE
         then (False, t1 @ [Cerr [Str ''Failed to change the state to PAUSED'']])
         else (True, t1))"

definition Stop :: "gst_lib \<Rightarrow> GstCamera \<Rightarrow> event list \<Rightarrow> bool \<times> event list" where
  "Stop lib s t0 =
     (let result = gst_element_set_state lib t0 (pipeline (gst s)) GST_STATE_READY;
          t1 = t0 @ [Gst_element_set_state (pipeline (gst s)) GST_STATE_READY result]
      in if result = GST_STATE_CHANGE_FAILURE
         then (False, t1 @ [Cerr [Str ''Failed to change the state to READY'']])
         else (True, t1))"

subsection \<open>TakePicture, SetZoomLevel, GetZoomMaxMinSize, GetPreviewFrameBuffer\<close>

definition TakePicture :: "GstCamera \<Rightarrow> handle option \<Rightarrow> event list \<Rightarrow> GstCamera \<times> event list" where
  "TakePicture s on_notify_captured t0 =
     (s\<lparr>on_notify_captured_' := on_notify_captured\<rparr>,
      t0 @ [Cerr [Str ''TakePicture is not supported with v4l2src pipeline'']])"

definition SetZoomLevel :: "GstCamera \<Rightarrow> cfloat \<Rightarrow> event list \<Rightarrow> fault + (bool \<times> event list)" where
  "SetZoomLevel s zoom t0 =
     (case source (gst s) of
        None \<Rightarrow> Inr (False, t0 @ [Cerr [Str ''Source not initialized'']])
      | Some source_h \<Rightarrow>
          if float_less zoom (min_zoom_level_' s)
          then Inr (False, t0 @ [Cerr [Str ''zoom level('', Float_val zoom,
                                        Str '') is under the min-zoom level('',
                                        Float_val (min_zoom_level_' s), Str '')'']])
          else if float_greater zoom (max_zoom_level_' s)
          then Inr (False, t0 @ [Cerr [Str ''zoom level('', Float_val zoom,
                                        Str '') is over the max-zoom level('',
                                        Float_val (max_zoom_level_' s), Str '')'']])
          else (case float_to_int zoom of
                  Inl f \<Rightarrow> Inl f
                | Inr zoom_int \<Rightarrow>
                    (let controls = \<lparr>struct_name = ''controls'',
                                     int_fields = [(''zoom-absolute'', zoom_int)],
                                     string_fields = []\<rparr>
                     in Inr (True, t0 @ [Gst_structure_new controls,
                                         G_object_set source_h [(''extra-controls'', GStructurePtr controls)],
                                         Cout [Str ''Set zoom level to: '', Int_val zoom_int]]))))"

text \<open>The two reference parameters \<open>max\<close> and \<open>min\<close>, in this order.\<close>

definition GetZoomMaxMinSize :: "GstCamera \<Rightarrow> cfloat \<times> cfloat" where
  "GetZoomMaxMinSize s = (Finite 3, Finite 0)"

text \<open>
  The shared lock is taken at the declaration of \<open>lock\<close> and released when the function
  returns. The result is the pointer returned: \<open>None\<close> for null.
\<close>

definition GetPreviewFrameBuffer :: "GstCamera \<Rightarrow> event list \<Rightarrow> fault + (handle option \<times> event list)" where
  "GetPreviewFrameBuffer s t0 =
     (let t1 = t0 @ [Lock_shared]
      in case buffer (gst s) of
           None \<Rightarrow> Inr (None, t1 @ [Unlock_shared])
         | Some buffer_h \<Rightarrow>
             (case int_mul (width_' s) (height_' s) of
                Inl f \<Rightarrow> Inl f
              | Inr wh \<Rightarrow>
                  (case int_mul wh 4 of
                     Inl f \<Rightarrow> Inl f
                   | Inr n \<Rightarrow>
                       (let pixel_bytes = to_uint32 n
                        in Inr (pixels_' s,
                                t1 @ [Gst_buffer_extract buffer_h 0 (pixels_' s) pixel_bytes,
                                      Unlock_shared])))))"

subsection \<open>CreatePipeline, Preroll, DestroyPipeline\<close>

definition mjpeg_caps_string :: string where
  "mjpeg_caps_string = ''image/jpeg,width=1920,height=1080,framerate=30/1''"

definition rgba_caps_string :: string where
  "rgba_caps_string = ''video/x-raw,format=RGBA''"

definition CreatePipeline :: "gst_lib \<Rightarrow> GstCamera \<Rightarrow> event list \<Rightarrow> bool \<times> GstCamera \<times> event list" where
  "CreatePipeline lib s0 t0 =
     (let p = gst_pipeline_new lib t0 ''pipeline'';
          t1 = t0 @ [Gst_pipeline_new ''pipeline'' p];
          s1 = s0\<lparr>gst := (gst s0)\<lparr>pipeline := p\<rparr>\<rparr>
      in case p of
           None \<Rightarrow> (False, s1, t1 @ [Cerr [Str ''Failed to create a pipeline'']])
         | Some pipeline_h \<Rightarrow>
     (let src = gst_element_factory_make lib t1 ''v4l2src'' ''source'';
          t2 = t1 @ [Gst_element_factory_make ''v4l2src'' ''source'' src];
          s2 = s1\<lparr>gst := (gst s1)\<lparr>source := src\<rparr>\<rparr>
      in case src of
           None \<Rightarrow> (False, s2, t2 @ [Cerr [Str ''Failed to create v4l2src'']])
         | Some source_h \<Rightarrow>
     (let t3 = t2 @ [G_object_set source_h [(''device'', GString ''/dev/video34'')]];
          dec = gst_element_factory_make lib t3 ''jpegdec'' ''jpegdec'';
          t4 = t3 @ [Gst_element_factory_make ''jpegdec'' ''jpegdec'' dec];
          s3 = s2\<lparr>gst := (gst s2)\<lparr>jpegdec := dec\<rparr>\<rparr>
      in case dec of
           None \<Rightarrow> (False, s3, t4 @ [Cerr [Str ''Failed to create jpegdec'']])
         | Some jpegdec_h \<Rightarrow>
     (let conv = gst_element_factory_make lib t4 ''videoconvert'' ''videoconvert'';
          t5 = t4 @ [Gst_element_factory_make ''videoconvert'' ''videoconvert'' conv];
          s4 = s3\<lparr>gst := (gst s3)\<lparr>video_convert := conv\<rparr>\<rparr>
      in case conv of
           None \<Rightarrow> (False, s4, t5 @ [Cerr [Str ''Failed to create a videoconvert'']])
         | Some video_convert_h \<Rightarrow>
     (let sink = gst_element_factory_make lib t5 ''fakesink'' ''videosink'';
          t6 = t5 @ [Gst_element_factory_make ''fakesink'' ''videosink'' sink];
          s5 = s4\<lparr>gst := (gst s4)\<lparr>video_sink := sink\<rparr>\<rparr>
      in case sink of
           None \<Rightarrow> (False, s5, t6 @ [Cerr [Str ''Failed to create a videosink'']])
         | Some video_sink_h \<Rightarrow>
     (let b = gst_pipeline_get_bus lib t6 pipeline_h;
          t7 = t6 @ [Gst_pipeline_get_bus pipeline_h b];
          s6 = s5\<lparr>gst := (gst s5)\<lparr>bus := b\<rparr>\<rparr>
      in case b of
           None \<Rightarrow> (False, s6, t7 @ [Cerr [Str ''Failed to create a bus'']])
         | Some bus_h \<Rightarrow>
     (let t8 = t7 @ [Gst_bus_set_sync_handler bus_h,
                     G_object_set video_sink_h [(''sync'', GBoolean True), (''qos'', GBoolean False)],
                     G_object_set video_sink_h [(''signal-handoffs'', GBoolean True)],
                     G_signal_connect video_sink_h ''handoff'',
                     Gst_bin_add_many pipeline_h [source_h, jpegdec_h, video_convert_h, video_sink_h],
                     Gst_caps_from_string mjpeg_caps_string];
          link1 = gst_element_link_filtered lib t8 source_h jpegdec_h mjpeg_caps_string;
          t9 = t8 @ [Gst_element_link_filtered source_h jpegdec_h mjpeg_caps_string link1]
      in if \<not> link1
         then (False, s6, t9 @ [Cerr [Str ''Failed to link source to jpegdec''],
                                Gst_caps_unref (Caps_of_string mjpeg_caps_string)])
         else
     (let t10 = t9 @ [Gst_caps_unref (Caps_of_string mjpeg_caps_string)];
          link2 = gst_element_link lib t10 jpegdec_h video_convert_h;
          t11 = t10 @ [Gst_element_link jpegdec_h video_convert_h link2]
      in if \<not> link2
         then (False, s6, t11 @ [Cerr [Str ''Failed to link jpegdec to videoconvert'']])
         else
     (let t12 = t11 @ [Gst_caps_from_string rgba_caps_string];
          link_ok = gst_element_link_filtered lib t12 video_convert_h video_sink_h rgba_caps_string;
          t13 = t12 @ [Gst_element_link_filtered video_convert_h video_sink_h rgba_caps_string link_ok,
                       Gst_caps_unref (Caps_of_string rgba_caps_string)]
      in if \<not> link_ok
         then (False, s6, t13 @ [Cerr [Str ''Failed to link videoconvert to sink'']])
         else (True, s6, t13))))))))))"

definition Preroll :: "gst_lib \<Rightarrow> GstCamera \<Rightarrow> event list \<Rightarrow> event list" where
  "Preroll lib s t0 =
     (case source (gst s) of
        None \<Rightarrow> t0
      | Some _ \<Rightarrow>
          (let result = gst_element_set_state lib t0 (pipeline (gst s)) GST_STATE_PAUSED;
               t1 = t0 @ [Gst_element_set_state (pipeline (gst s)) GST_STATE_PAUSED result]
           in if result = GST_STATE_CHANGE_FAILURE
              then t1 @ [Cerr [Str ''Failed to change the state to PAUSED'']]
              else if result = GST_STATE_CHANGE_ASYNC
              then (let result2 = gst_element_get_state lib t1 (pipeline (gst s));
                        t2 = t1 @ [Gst_element_get_state (pipeline (gst s)) result2]
                    in if result2 = GST_STATE_CHANGE_FAILURE
                       then t2 @ [Cerr [Str ''Failed to get the current state'']]
                       else t2)
              else t1))"

text \<open>
  Each member that the source sets to null when it is not null is null afterwards either
  way; \<open>output\<close> is not touched.
\<close>

definition DestroyPipeline :: "gst_lib \<Rightarrow> GstCamera \<Rightarrow> event list \<Rightarrow> GstCamera \<times> event list" where
  "DestroyPipeline lib s0 t0 =
     (let t1 = (case video_sink (gst s0) of
                  None \<Rightarrow> t0
                | Some vs \<Rightarrow> t0 @ [G_object_set vs [(''signal-handoffs'', GBoolean False)]]);
          t2 = (case pipeline (gst s0) of
                  None \<Rightarrow> t1
                | Some p \<Rightarrow> t1 @ [Gst_element_set_state (Some p) GST_STATE_NULL
                                     (gst_element_set_state lib t1 (Some p) GST_STATE_NULL)]);
          t3 = (case buffer (gst s0) of None \<Rightarrow> t2 | Some b \<Rightarrow> t2 @ [Gst_buffer_unref b]);
          t4 = (case bus (gst s0) of None \<Rightarrow> t3 | Some b \<Rightarrow> t3 @ [Gst_object_unref b]);
          t5 = (case pipeline (gst s0) of None \<Rightarrow> t4 | Some p \<Rightarrow> t4 @ [Gst_object_unref p])
      in (s0\<lparr>gst := (gst s0)\<lparr>buffer := None, bus := None, pipeline := None, source := None,
                             jpegdec := None, video_sink := None, video_convert := None\<rparr>\<rparr>,
          t5))"

subsection \<open>The constructor and the destructor\<close>

text \<open>
  \<open>members\<close> holds the members as they are when the constructor's body starts: what the
  class declaration's initialisers give them. The mem-initialiser stores the handler, the
  body sets the eight handles of \<open>gst_\<close> to null.
\<close>

definition GstCamera_new :: "gst_lib \<Rightarrow> GstCamera \<Rightarrow> handle option \<Rightarrow> event list \<Rightarrow> GstCamera \<times> event list" where
  "GstCamera_new lib members handler t0 =
     (let s0 = members\<lparr>stream_handler_' := handler,
                        gst := \<lparr>pipeline = None, source = None, jpegdec = None,
                                video_convert = None, video_sink = None, output' = None,
                                bus = None, buffer = None\<rparr>\<rparr>
      in case CreatePipeline lib s0 t0 of
           (False, s1, t1) \<Rightarrow>
             DestroyPipeline lib s1 (t1 @ [Cerr [Str ''Failed to create a pipeline'']])
         | (True, s1, t1) \<Rightarrow>
             (s1\<lparr>max_zoom_level_' := Finite 3, min_zoom_level_' := Finite 0\<rparr>,
              Preroll lib s1 t1))"

definition GstCamera_delete :: "gst_lib \<Rightarrow> GstCamera \<Rightarrow> event list \<Rightarrow> GstCamera \<times> event list" where
  "GstCamera_delete lib s t0 = DestroyPipeline lib s (snd (Stop lib s t0))"

subsection \<open>The callbacks\<close>

text \<open>
  \<open>HandoffHandler\<close>: \<open>self\<close> is the object behind \<open>user_data\<close>. The two local
  \<open>int\<close>s are written by \<open>gst_structure_get_int\<close> only when the field exists, so
  reading one that was not written is a fault. \<open>new uint32_t[n]\<close> fails for a negative
  \<open>n\<close>. The exclusive lock is taken at the declaration of \<open>lock\<close> and released when the
  function returns. \<open>gst_buffer_ref\<close> returns its argument.
\<close>

definition HandoffHandler ::
  "gst_lib \<Rightarrow> GstCamera \<Rightarrow> handle \<Rightarrow> handle \<Rightarrow> GstPad \<Rightarrow> event list \<Rightarrow> fault + (GstCamera \<times> event list)" where
  "HandoffHandler lib self fakesink buf new_pad t0 =
     (let caps = current_caps new_pad;
          structure = gst_caps_get_structure0 caps;
          t1 = t0 @ [Gst_pad_get_current_caps (pad_id new_pad),
                     Gst_caps_unref (Caps_of_pad (pad_id new_pad))]
      in case gst_structure_get_int structure ''width'' of
           None \<Rightarrow> Inl Uninitialised_read
         | Some width \<Rightarrow>
     (case gst_structure_get_int structure ''height'' of
           None \<Rightarrow> Inl Uninitialised_read
         | Some height \<Rightarrow>
     (case (if width \<noteq> width_' self \<or> height \<noteq> height_' self
            then (case int_mul width height of
                    Inl f \<Rightarrow> Inl f
                  | Inr n \<Rightarrow>
                      if n < 0 then Inl Bad_array_new_length
                      else (let a = operator_new_uint32 lib t1 (nat n)
                            in Inr (self\<lparr>width_' := width, height_' := height, pixels_' := Some a\<rparr>,
                                    t1 @ [Operator_new_uint32 (nat n) a,
                                          Pixels_reset (pixels_' self) a,
                                          Cout [Str ''Pixel buffer size: width = '', Int_val width,
                                                Str '', height = '', Int_val height]])))
            else Inr (self, t1)) of
        Inl f \<Rightarrow> Inl f
      | Inr (s1, t2) \<Rightarrow>
          (let t3 = t2 @ [Lock_exclusive];
               t4 = (case buffer (gst s1) of None \<Rightarrow> t3 | Some old \<Rightarrow> t3 @ [Gst_buffer_unref old]);
               t5 = t4 @ [Gst_buffer_ref buf];
               s2 = s1\<lparr>gst := (gst s1)\<lparr>buffer := Some buf\<rparr>\<rparr>
           in case stream_handler_' s2 of
                None \<Rightarrow> Inl Null_dereference
              | Some handler \<Rightarrow> Inr (s2, t5 @ [OnNotifyFrameDecoded handler, Unlock_exclusive])))))"

text \<open>
  \<open>HandleGstMessage\<close>: \<open>self\<close> is the object behind \<open>user_data\<close>.
  \<open>gst_structure_get_string\<close> returns a \<open>const gchar*\<close>, null when the structure has
  no such string, and the source hands it to the callback without a test. The callable is
  declared in gst\_camera.h, which is not among the sources; it is taken to receive a
  \<open>const std::string&\<close>, so the argument is a string built from the pointer, and
  building a string from a null pointer is a fault: the callback is not called, the message
  is not released and the function does not return. \<open>error->message\<close> and
  \<open>GST_OBJECT_NAME(message->src)\<close> dereference what the library handed out.
\<close>

definition HandleGstMessage ::
  "GstCamera \<Rightarrow> GstMessage \<Rightarrow> event list \<Rightarrow> fault + (GstBusSyncReply \<times> event list)" where
  "HandleGstMessage self message t0 =
     (case (case msg_type message of
              GST_MESSAGE_ELEMENT \<Rightarrow>
                (case msg_structure message of
                   None \<Rightarrow> Inr t0
                 | Some st \<Rightarrow>
                     (case (gst_structure_has_name st ''image-done'', on_notify_captured_' self) of
                        (True, Some cb) \<Rightarrow>
                          (case gst_structure_get_string st ''filename'' of
                             None \<Rightarrow> Inl String_from_null
                           | Some filename \<Rightarrow> Inr (t0 @ [On_notify_captured cb filename]))
                      | _ \<Rightarrow> Inr t0))
            | GST_MESSAGE_WARNING \<Rightarrow>
                (case (msg_src_name message, msg_gerror message) of
                   (Some src, Some err) \<Rightarrow>
                     Inr (t0 @ [G_printerr [Str ''WARNING from element '', Str src, Str '': '', Str err],
                                G_printerr [Str ''Warning details: '', Str_or_null (msg_debug message)],
                                G_free (msg_debug message),
                                G_error_free])
                 | _ \<Rightarrow> Inl Null_dereference)
            | GST_MESSAGE_ERROR \<Rightarrow>
                (case (msg_src_name message, msg_gerror message) of
                   (Some src, Some err) \<Rightarrow>
                     Inr (t0 @ [G_printerr [Str ''ERROR from element '', Str src, Str '': '', Str err],
                                G_printerr [Str ''Error details: '', Str_or_null (msg_debug message)],
                                G_free (msg_debug message),
                                G_error_free])
                 | _ \<Rightarrow> Inl Null_dereference)
            | _ \<Rightarrow> Inr t0) of
        Inl f \<Rightarrow> Inl f
      | Inr t1 \<Rightarrow> Inr (GST_BUS_DROP, t1 @ [Gst_message_unref (msg_id message)]))"

subsection \<open>The life of an object\<close>

text \<open>
  After the constructor, the host and the library call the methods and the callbacks in
  any order. A \<open>call\<close> is one such invocation with its arguments; \<open>step\<close> runs it on
  the object and keeps the object state and the events (a method that writes no member
  leaves the state as it is); \<open>run\<close> runs a sequence and stops at the first fault.
\<close>

datatype call =
    Call_Play
  | Call_Pause
  | Call_Stop
  | Call_TakePicture "handle option"
  | Call_SetZoomLevel cfloat
  | Call_GetPreviewFrameBuffer
  | Call_GetZoomMaxMinSize
  | Call_HandoffHandler handle handle GstPad
  | Call_HandleGstMessage GstMessage

fun step :: "gst_lib \<Rightarrow> call \<Rightarrow> GstCamera \<Rightarrow> event list \<Rightarrow> fault + (GstCamera \<times> event list)" where
  "step lib Call_Play s t = Inr (s, snd (Play lib s t))"
| "step lib Call_Pause s t = Inr (s, snd (Pause lib s t))"
| "step lib Call_Stop s t = Inr (s, snd (Stop lib s t))"
| "step lib (Call_TakePicture cb) s t = Inr (TakePicture s cb t)"
| "step lib (Call_SetZoomLevel zoom) s t =
     (case SetZoomLevel s zoom t of Inl f \<Rightarrow> Inl f | Inr (_, t') \<Rightarrow> Inr (s, t'))"
| "step lib Call_GetPreviewFrameBuffer s t =
     (case GetPreviewFrameBuffer s t of Inl f \<Rightarrow> Inl f | Inr (_, t') \<Rightarrow> Inr (s, t'))"
| "step lib Call_GetZoomMaxMinSize s t = Inr (s, t)"
| "step lib (Call_HandoffHandler fakesink buf new_pad) s t = HandoffHandler lib s fakesink buf new_pad t"
| "step lib (Call_HandleGstMessage message) s t =
     (case HandleGstMessage s message t of Inl f \<Rightarrow> Inl f | Inr (_, t') \<Rightarrow> Inr (s, t'))"

fun run :: "gst_lib \<Rightarrow> call list \<Rightarrow> GstCamera \<Rightarrow> event list \<Rightarrow> fault + (GstCamera \<times> event list)" where
  "run lib [] s t = Inr (s, t)"
| "run lib (c # cs) s t =
     (case step lib c s t of Inl f \<Rightarrow> Inl f | Inr (s', t') \<Rightarrow> run lib cs s' t')"

fun is_TakePicture :: "call \<Rightarrow> bool" where
  "is_TakePicture (Call_TakePicture _) = True"
| "is_TakePicture _ = False"

subsection \<open>Notions the properties are stated with\<close>

text \<open>
  The steps of \<open>CreatePipeline\<close> that can fail: the creation of the pipeline, of an
  element and of the bus, and the links. \<open>step_failed\<close> reads the recorded result,
  \<open>kind_of\<close> forgets the handles and the result. \<open>asked lib h e\<close> is the event
  \<open>e\<close> with the result the library gives to that call after the events \<open>h\<close>, and
  \<open>results_from lib h es\<close> says that every result recorded in \<open>es\<close>, issued after
  \<open>h\<close>, is the library's answer at that moment.
\<close>

fun is_step :: "event \<Rightarrow> bool" where
  "is_step (Gst_pipeline_new _ _) = True"
| "is_step (Gst_element_factory_make _ _ _) = True"
| "is_step (Gst_pipeline_get_bus _ _) = True"
| "is_step (Gst_element_link_filtered _ _ _ _) = True"
| "is_step (Gst_element_link _ _ _) = True"
| "is_step _ = False"

fun step_failed :: "event \<Rightarrow> bool" where
  "step_failed (Gst_pipeline_new _ r) = (r = None)"
| "step_failed (Gst_element_factory_make _ _ r) = (r = None)"
| "step_failed (Gst_pipeline_get_bus _ r) = (r = None)"
| "step_failed (Gst_element_link_filtered _ _ _ ok) = (\<not> ok)"
| "step_failed (Gst_element_link _ _ ok) = (\<not> ok)"
| "step_failed _ = False"

fun asked :: "gst_lib \<Rightarrow> event list \<Rightarrow> event \<Rightarrow> event" where
  "asked lib h (Gst_pipeline_new name _) = Gst_pipeline_new name (gst_pipeline_new lib h name)"
| "asked lib h (Gst_element_factory_make factory name _) =
     Gst_element_factory_make factory name (gst_element_factory_make lib h factory name)"
| "asked lib h (Gst_pipeline_get_bus p _) = Gst_pipeline_get_bus p (gst_pipeline_get_bus lib h p)"
| "asked lib h (Gst_element_link_filtered a b caps _) =
     Gst_element_link_filtered a b caps (gst_element_link_filtered lib h a b caps)"
| "asked lib h (Gst_element_link a b _) = Gst_element_link a b (gst_element_link lib h a b)"
| "asked lib h e = e"

fun results_from :: "gst_lib \<Rightarrow> event list \<Rightarrow> event list \<Rightarrow> bool" where
  "results_from lib h [] = True"
| "results_from lib h (e # es) = (asked lib h e = e \<and> results_from lib (h @ [e]) es)"

datatype step_kind =
    Create_pipeline
  | Create_element string
  | Get_bus
  | Link_with_caps string
  | Link_plain
  | No_step

fun kind_of :: "event \<Rightarrow> step_kind" where
  "kind_of (Gst_pipeline_new _ _) = Create_pipeline"
| "kind_of (Gst_element_factory_make factory _ _) = Create_element factory"
| "kind_of (Gst_pipeline_get_bus _ _) = Get_bus"
| "kind_of (Gst_element_link_filtered _ _ caps _) = Link_with_caps caps"
| "kind_of (Gst_element_link _ _ _) = Link_plain"
| "kind_of _ = No_step"

text \<open>
  The order the specification gives: device capture, JPEG decode, colour-space conversion,
  frame sink; then the three links, the first under the JPEG caps and the last under the
  RGBA caps.
\<close>

definition pipeline_steps :: "step_kind list" where
  "pipeline_steps =
     [Create_pipeline, Create_element ''v4l2src'', Create_element ''jpegdec'',
      Create_element ''videoconvert'', Create_element ''fakesink'', Get_bus,
      Link_with_caps ''image/jpeg,width=1920,height=1080,framerate=30/1'',
      Link_plain,
      Link_with_caps ''video/x-raw,format=RGBA'']"

text \<open>\<open>a <= b\<close> on floats, for the closed interval of zoom levels.\<close>

fun float_le :: "cfloat \<Rightarrow> cfloat \<Rightarrow> bool" where
  "float_le NaN _ = False"
| "float_le _ NaN = False"
| "float_le (Finite a) (Finite b) = (a \<le> b)"
| "float_le MinusInf _ = True"
| "float_le _ PlusInf = True"
| "float_le _ _ = False"

definition zoom_in_range :: "GstCamera \<Rightarrow> cfloat \<Rightarrow> bool" where
  "zoom_in_range s zoom = (float_le (min_zoom_level_' s) zoom \<and> float_le zoom (max_zoom_level_' s))"

text \<open>
  What every constructed object satisfies: an object with a source element has the
  bounds 3 and 0 (the constructor either stores them or leaves the source null).
\<close>

definition zoom_bounds_inv :: "GstCamera \<Rightarrow> bool" where
  "zoom_bounds_inv s =
     (source (gst s) \<noteq> None \<longrightarrow> max_zoom_level_' s = Finite 3 \<and> min_zoom_level_' s = Finite 0)"

text \<open>The structure \<open>SetZoomLevel\<close> builds for the control value \<open>z\<close>.\<close>

definition zoom_controls :: "int \<Rightarrow> GstStructure" where
  "zoom_controls z = \<lparr>struct_name = ''controls'', int_fields = [(''zoom-absolute'', z)], string_fields = []\<rparr>"

text \<open>
  The number of references to frame buffers the object holds: one when \<open>gst_.buffer\<close> is
  set. \<open>peak_refs n es\<close> is the largest number held at any moment while the events
  \<open>es\<close> happen, starting from \<open>n\<close>.
\<close>

definition held_refs :: "GstCamera \<Rightarrow> int" where
  "held_refs s = (case buffer (gst s) of None \<Rightarrow> 0 | Some _ \<Rightarrow> 1)"

fun refs_after :: "int \<Rightarrow> event \<Rightarrow> int" where
  "refs_after n (Gst_buffer_ref _) = n + 1"
| "refs_after n (Gst_buffer_unref _) = n - 1"
| "refs_after n _ = n"

fun peak_refs :: "int \<Rightarrow> event list \<Rightarrow> int" where
  "peak_refs n [] = n"
| "peak_refs n (e # es) = max n (peak_refs (refs_after n e) es)"

fun is_buffer_ref_change :: "event \<Rightarrow> bool" where
  "is_buffer_ref_change (Gst_buffer_ref _) = True"
| "is_buffer_ref_change (Gst_buffer_unref _) = True"
| "is_buffer_ref_change _ = False"

fun is_frame_notification :: "event \<Rightarrow> bool" where
  "is_frame_notification (OnNotifyFrameDecoded _) = True"
| "is_frame_notification _ = False"

fun is_allocation :: "event \<Rightarrow> bool" where
  "is_allocation (Operator_new_uint32 _ _) = True"
| "is_allocation (Pixels_reset _ _) = True"
| "is_allocation _ = False"

text \<open>The \<open>int\<close> field \<open>n\<close> of the first structure of a pad's current caps.\<close>

definition caps_int :: "GstPad \<Rightarrow> string \<Rightarrow> int option" where
  "caps_int new_pad n = gst_structure_get_int (gst_caps_get_structure0 (current_caps new_pad)) n"

text \<open>The four events of the WARNING and the ERROR case: two log lines and two frees.\<close>

definition message_log :: "string \<Rightarrow> string \<Rightarrow> GstMessage \<Rightarrow> event list" where
  "message_log label details message =
     (case (msg_src_name message, msg_gerror message) of
        (Some src, Some err) \<Rightarrow>
          [G_printerr [Str label, Str src, Str '': '', Str err],
           G_printerr [Str details, Str_or_null (msg_debug message)],
           G_free (msg_debug message),
           G_error_free]
      | _ \<Rightarrow> [])"

subsection \<open>Example libraries and objects\<close>

text \<open>
  A library in which every call succeeds: state changes are asynchronous and the wait for
  them succeeds; an allocation's address depends on the events so far.
\<close>

definition example_lib :: gst_lib where
  "example_lib =
     \<lparr>gst_pipeline_new = (\<lambda>t n. Some 1),
      gst_element_factory_make =
        (\<lambda>t f n. if f = ''v4l2src'' then Some 2 else if f = ''jpegdec'' then Some 3
                 else if f = ''videoconvert'' then Some 4 else if f = ''fakesink'' then Some 5
                 else None),
      gst_pipeline_get_bus = (\<lambda>t p. Some 6),
      gst_element_link_filtered = (\<lambda>t a b c. True),
      gst_element_link = (\<lambda>t a b. True),
      gst_element_set_state = (\<lambda>t e st. GST_STATE_CHANGE_ASYNC),
      gst_element_get_state = (\<lambda>t e. GST_STATE_CHANGE_SUCCESS),
      operator_new_uint32 = (\<lambda>t n. 100 + length t)\<rparr>"

text \<open>The same library, but the wait for an asynchronous state change fails.\<close>

definition example_lib_wait_fails :: gst_lib where
  "example_lib_wait_fails = example_lib\<lparr>gst_element_get_state := (\<lambda>t e. GST_STATE_CHANGE_FAILURE)\<rparr>"

text \<open>The same library without a JPEG decoder plugin.\<close>

definition example_lib_no_jpegdec :: gst_lib where
  "example_lib_no_jpegdec =
     example_lib\<lparr>gst_element_factory_make :=
       (\<lambda>t f n. if f = ''jpegdec'' then None else gst_element_factory_make example_lib t f n)\<rparr>"

text \<open>
  Three libraries in which one link fails: the link under the JPEG caps, the plain link,
  the link under the RGBA caps.
\<close>

definition example_lib_no_jpeg_link :: gst_lib where
  "example_lib_no_jpeg_link =
     example_lib\<lparr>gst_element_link_filtered := (\<lambda>t a b caps. caps \<noteq> mjpeg_caps_string)\<rparr>"

definition example_lib_no_plain_link :: gst_lib where
  "example_lib_no_plain_link = example_lib\<lparr>gst_element_link := (\<lambda>t a b. False)\<rparr>"

definition example_lib_no_rgba_link :: gst_lib where
  "example_lib_no_rgba_link =
     example_lib\<lparr>gst_element_link_filtered := (\<lambda>t a b caps. caps \<noteq> rgba_caps_string)\<rparr>"

text \<open>Members before the constructor's body has run: arbitrary handles and bounds.\<close>

definition example_members :: GstCamera where
  "example_members =
     \<lparr>gst = \<lparr>pipeline = Some 40, source = Some 41, jpegdec = Some 42, video_convert = Some 43,
             video_sink = Some 44, output' = Some 45, bus = Some 46, buffer = Some 47\<rparr>,
      pixels_' = None, width_' = - 1, height_' = - 1, stream_handler_' = None,
      max_zoom_level_' = Finite 7, min_zoom_level_' = Finite 5, on_notify_captured_' = None\<rparr>"

definition example_camera :: GstCamera where
  "example_camera = fst (GstCamera_new example_lib example_members (Some 7) [])"

text \<open>A pad whose caps are 1920 by 1080 RGBA video, and two bus messages.\<close>

definition example_pad :: GstPad where
  "example_pad =
     \<lparr>pad_id = 30,
      current_caps = Some [\<lparr>struct_name = ''video/x-raw'',
                            int_fields = [(''width'', 1920), (''height'', 1080)],
                            string_fields = [(''format'', ''RGBA'')]\<rparr>]\<rparr>"

definition example_image_done :: GstMessage where
  "example_image_done =
     \<lparr>msg_id = 9, msg_type = GST_MESSAGE_ELEMENT,
      msg_structure = Some \<lparr>struct_name = ''image-done'', int_fields = [],
                            string_fields = [(''filename'', ''/tmp/capture.jpg'')]\<rparr>,
      msg_src_name = Some ''source'', msg_gerror = None, msg_debug = None\<rparr>"

text \<open>The same message without the "filename" string.\<close>

definition example_image_done_unnamed :: GstMessage where
  "example_image_done_unnamed =
     example_image_done\<lparr>msg_structure :=
       Some \<lparr>struct_name = ''image-done'', int_fields = [], string_fields = []\<rparr>\<rparr>"

definition example_warning :: GstMessage where
  "example_warning =
     \<lparr>msg_id = 10, msg_type = GST_MESSAGE_WARNING, msg_structure = None,
      msg_src_name = Some ''source'', msg_gerror = Some ''Device is busy'', msg_debug = None\<rparr>"

text \<open>The example object once it holds the frame buffer 20 of a first handoff.\<close>

definition example_streaming :: GstCamera where
  "example_streaming =
     example_camera\<lparr>width_' := 1920, height_' := 1080, pixels_' := Some 102,
                    gst := (gst example_camera)\<lparr>buffer := Some 20\<rparr>\<rparr>"

section \<open>Properties\<close>

subsection \<open>The example object\<close>

lemma example_camera_eq:
  "example_camera =
     \<lparr>gst = \<lparr>pipeline = Some 1, source = Some 2, jpegdec = Some 3, video_convert = Some 4,
             video_sink = Some 5, output' = None, bus = Some 6, buffer = None\<rparr>,
      pixels_' = None, width_' = - 1, height_' = - 1, stream_handler_' = Some 7,
      max_zoom_level_' = Finite 3, min_zoom_level_' = Finite 0, on_notify_captured_' = None\<rparr>"
  by (simp add: example_camera_def example_lib_def example_members_def GstCamera_new_def
      CreatePipeline_def Let_def)

subsection \<open>Floats and integers\<close>

lemma float_le_bounds:
  "float_le (Finite a) z \<and> float_le z (Finite b) \<longleftrightarrow> (\<exists>q. z = Finite q \<and> a \<le> q \<and> q \<le> b)"
  by (cases z) auto

lemma float_to_int_small:
  assumes "0 \<le> q" and "q \<le> 3"
  shows "float_to_int (Finite q) = Inr (truncate_toward_zero q)"
proof -
  have "0 \<le> \<lfloor>q\<rfloor>" using assms by simp
  moreover have "\<lfloor>q\<rfloor> \<le> 3" using assms by (simp add: floor_le_iff)
  ultimately show ?thesis using assms
    by (simp add: float_to_int_def truncate_toward_zero_def INT_MIN_def INT_MAX_def Let_def)
qed

text \<open>
  \<open>truncate_toward_zero\<close> is the truncation toward zero: the integer it gives is no
  larger in magnitude than the number, and less than one away from it.
\<close>

lemma truncate_toward_zero_char:
  "\<bar>of_int (truncate_toward_zero q)\<bar> \<le> \<bar>q\<bar> \<and> \<bar>q - of_int (truncate_toward_zero q)\<bar> < 1"
proof (cases "0 \<le> q")
  case True
  have "of_int \<lfloor>q\<rfloor> \<le> q" "q < of_int \<lfloor>q\<rfloor> + 1" "(0::rat) \<le> of_int \<lfloor>q\<rfloor>"
    using floor_correct [of q] True by simp_all
  with True show ?thesis by (simp add: truncate_toward_zero_def)
next
  case False
  have "q \<le> of_int \<lceil>q\<rceil>" "of_int \<lceil>q\<rceil> - 1 < q" "of_int \<lceil>q\<rceil> \<le> (0::rat)"
    using ceiling_correct [of q] False by (simp_all add: ceiling_le_iff)
  with False show ?thesis by (simp add: truncate_toward_zero_def)
qed

lemma pixel_bytes_exact:
  assumes "0 \<le> w * h" and "w * h * 4 \<le> INT_MAX"
  shows "int_mul w h = Inr (w * h)" and "int_mul (w * h) 4 = Inr (w * h * 4)"
    and "to_uint32 (w * h * 4) = nat (w * h * 4)"
proof -
  define P where "P = w * h"
  have P: "0 \<le> P" "P * 4 \<le> 2147483647"
    using assms by (simp_all add: P_def INT_MAX_def)
  then have "- 2147483648 \<le> P \<and> P \<le> 2147483647 \<and> - 2147483648 \<le> P * 4" by linarith
  with P show "int_mul w h = Inr (w * h)" "int_mul (w * h) 4 = Inr (w * h * 4)"
    by (simp_all add: int_mul_def INT_MIN_def INT_MAX_def P_def [symmetric])
  have "P * 4 mod 2 ^ 32 = P * 4" using P by (intro mod_pos_pos_trivial) simp_all
  then show "to_uint32 (w * h * 4) = nat (w * h * 4)"
    by (simp add: to_uint32_def P_def [symmetric])
qed

subsection \<open>What no call changes\<close>

lemma step_keeps_zoom_members:
  assumes "step lib c s t = Inr (s', t')"
  shows "source (gst s') = source (gst s) \<and> max_zoom_level_' s' = max_zoom_level_' s
         \<and> min_zoom_level_' s' = min_zoom_level_' s"
proof (cases c)
  case (Call_HandoffHandler fakesink buf new_pad)
  with assms show ?thesis
    by (auto simp: HandoffHandler_def Let_def split: option.splits sum.splits if_splits prod.splits)
next
  case (Call_TakePicture cb)
  with assms show ?thesis by (auto simp: TakePicture_def)
qed (use assms in \<open>auto split: sum.splits prod.splits\<close>)

lemma run_keeps_zoom_members:
  "run lib cs s t = Inr (s', t') \<Longrightarrow>
     source (gst s') = source (gst s) \<and> max_zoom_level_' s' = max_zoom_level_' s
     \<and> min_zoom_level_' s' = min_zoom_level_' s"
proof (induction cs arbitrary: s t)
  case Nil
  then show ?case by simp
next
  case (Cons c cs)
  then obtain s1 t1 where 1: "step lib c s t = Inr (s1, t1)" and 2: "run lib cs s1 t1 = Inr (s', t')"
    by (auto split: sum.splits)
  from step_keeps_zoom_members [OF 1] Cons.IH [OF 2] show ?case by simp
qed

text \<open>The constructor establishes the invariant and every sequence of calls keeps it.\<close>

lemma GstCamera_new_zoom_bounds_inv: "zoom_bounds_inv (fst (GstCamera_new lib members handler t))"
  by (simp add: GstCamera_new_def zoom_bounds_inv_def DestroyPipeline_def Let_def
      split: prod.splits bool.splits)

lemma run_zoom_bounds_inv:
  "zoom_bounds_inv s \<Longrightarrow> run lib cs s t = Inr (s', t') \<Longrightarrow> zoom_bounds_inv s'"
  using run_keeps_zoom_members [of lib cs s t s' t'] by (simp add: zoom_bounds_inv_def)

lemma step_keeps_callback:
  assumes "step lib c s t = Inr (s', t')" and "\<not> is_TakePicture c"
  shows "on_notify_captured_' s' = on_notify_captured_' s"
proof (cases c)
  case (Call_HandoffHandler fakesink buf new_pad)
  with assms show ?thesis
    by (auto simp: HandoffHandler_def Let_def split: option.splits sum.splits if_splits prod.splits)
qed (use assms in \<open>auto split: sum.splits prod.splits\<close>)

lemma run_keeps_callback:
  "run lib cs s t = Inr (s', t') \<Longrightarrow> \<forall>c \<in> set cs. \<not> is_TakePicture c \<Longrightarrow>
     on_notify_captured_' s' = on_notify_captured_' s"
proof (induction cs arbitrary: s t)
  case Nil
  then show ?case by simp
next
  case (Cons c cs)
  then obtain s1 t1 where 1: "step lib c s t = Inr (s1, t1)" and 2: "run lib cs s1 t1 = Inr (s', t')"
    by (auto split: sum.splits)
  from Cons.prems(2) have 3: "\<not> is_TakePicture c" "\<forall>c \<in> set cs. \<not> is_TakePicture c" by simp_all
  from step_keeps_callback [OF 1 3(1)] Cons.IH [OF 2 3(2)] show ?case by simp
qed

subsection \<open>CreatePipeline\<close>

text \<open>
  Every result recorded in a list of events is the library's answer exactly when this holds
  at every place of the list.
\<close>

lemma results_from_iff:
  "results_from lib h es \<longleftrightarrow> (\<forall>pre e post. es = pre @ e # post \<longrightarrow> asked lib (h @ pre) e = e)"
proof (induction es arbitrary: h)
  case Nil
  then show ?case by simp
next
  case (Cons x xs)
  show ?case
  proof
    assume a: "results_from lib h (x # xs)"
    show "\<forall>pre e post. x # xs = pre @ e # post \<longrightarrow> asked lib (h @ pre) e = e"
    proof (intro allI impI)
      fix pre e post
      assume eq: "x # xs = pre @ e # post"
      show "asked lib (h @ pre) e = e"
      proof (cases pre)
        case Nil
        with eq a show ?thesis by simp
      next
        case (Cons y ys)
        with eq have "y = x" "xs = ys @ e # post" by simp_all
        moreover from a have "results_from lib (h @ [x]) xs" by simp
        ultimately have "asked lib ((h @ [x]) @ ys) e = e"
          using Cons.IH [of "h @ [x]"] by blast
        with Cons \<open>y = x\<close> show ?thesis by simp
      qed
    qed
  next
    assume a: "\<forall>pre e post. x # xs = pre @ e # post \<longrightarrow> asked lib (h @ pre) e = e"
    then have "asked lib (h @ []) x = x" by blast
    moreover have "results_from lib (h @ [x]) xs"
      unfolding Cons.IH [of "h @ [x]"]
    proof (intro allI impI)
      fix pre e post
      assume "xs = pre @ e # post"
      then have "x # xs = (x # pre) @ e # post" by simp
      with a have "asked lib (h @ x # pre) e = e" by blast
      then show "asked lib ((h @ [x]) @ pre) e = e" by simp
    qed
    ultimately show "results_from lib h (x # xs)" by simp
  qed
qed

lemma step_failed_is_step: "step_failed e \<Longrightarrow> is_step e"
  by (cases e) simp_all

lemma filter_snoc_split:
  assumes "filter P xs = pre @ [e]"
  shows "\<exists>before after. xs = before @ e # after \<and> filter P before = pre \<and> P e
           \<and> filter P after = []"
proof -
  from assms have "filter P (rev xs) = e # rev pre" by (simp add: rev_filter [symmetric])
  then obtain us vs where 1: "rev xs = us @ e # vs" "\<forall>u \<in> set us. \<not> P u" "P e"
    "rev pre = filter P vs"
    unfolding filter_eq_Cons_iff by blast
  from 1(1) have "xs = rev vs @ e # rev us"
    by (metis rev_append rev.simps(2) rev_rev_ident append_Cons append_Nil append_assoc)
  moreover from 1(4) have "filter P (rev vs) = pre" by (metis rev_filter rev_rev_ident)
  moreover from 1(2) have "filter P (rev us) = []" by (simp add: filter_empty_conv)
  ultimately show ?thesis using 1(3) by blast
qed

text \<open>
  C1. For every library, \<open>CreatePipeline\<close> attempts its fallible steps in the order
  pipeline, v4l2src, jpegdec, videoconvert, fakesink, bus, link under the JPEG caps
  (image/jpeg, 1920x1080, 30/1), plain link, link under the RGBA caps: the steps it has
  attempted are always an initial part of that list, and each one's recorded result is
  what the library (\<open>gst_pipeline_new\<close>, \<open>gst_element_factory_make\<close>,
  \<open>gst_pipeline_get_bus\<close>, \<open>gst_element_link_filtered\<close>, \<open>gst_element_link\<close>)
  answered to that call at that moment. It returns true exactly when no step failed. When
  it returns true, all nine were attempted, the elements were added to the pipeline in the
  order source, decoder, converter, sink, and the links are v4l2src to jpegdec under the
  JPEG caps, jpegdec to videoconvert, videoconvert to fakesink under the RGBA caps. When
  it returns false, the step the library refused is the last one attempted: nothing is
  created or linked after it.
\<close>

theorem CreatePipeline_order:
  assumes "CreatePipeline lib s t = (ok, s', t')"
  shows "\<exists>new. t' = t @ new
    \<and> results_from lib t new
    \<and> map kind_of (filter is_step new) = take (length (filter is_step new)) pipeline_steps
    \<and> ok = (\<forall>e \<in> set new. \<not> step_failed e)
    \<and> (ok \<longrightarrow> (\<exists>p src dec conv sink b.
          gst s' = (gst s)\<lparr>pipeline := Some p, source := Some src, jpegdec := Some dec,
                            video_convert := Some conv, video_sink := Some sink, bus := Some b\<rparr>
          \<and> Gst_bin_add_many p [src, dec, conv, sink] \<in> set new
          \<and> filter is_step new =
              [Gst_pipeline_new ''pipeline'' (Some p),
               Gst_element_factory_make ''v4l2src'' ''source'' (Some src),
               Gst_element_factory_make ''jpegdec'' ''jpegdec'' (Some dec),
               Gst_element_factory_make ''videoconvert'' ''videoconvert'' (Some conv),
               Gst_element_factory_make ''fakesink'' ''videosink'' (Some sink),
               Gst_pipeline_get_bus p (Some b),
               Gst_element_link_filtered src dec ''image/jpeg,width=1920,height=1080,framerate=30/1'' True,
               Gst_element_link dec conv True,
               Gst_element_link_filtered conv sink ''video/x-raw,format=RGBA'' True]))
    \<and> (\<not> ok \<longrightarrow> (\<exists>before e after. new = before @ e # after
                        \<and> is_step e \<and> step_failed e \<and> asked lib (t @ before) e = e
                        \<and> (\<forall>x \<in> set before. \<not> step_failed x)
                        \<and> filter is_step after = []))"
proof -
  obtain new where new: "t' = t @ new" and r: "results_from lib t new"
    and k: "map kind_of (filter is_step new) = take (length (filter is_step new)) pipeline_steps"
    and okl: "ok \<longrightarrow> (\<exists>p src dec conv sink b.
          gst s' = (gst s)\<lparr>pipeline := Some p, source := Some src, jpegdec := Some dec,
                            video_convert := Some conv, video_sink := Some sink, bus := Some b\<rparr>
          \<and> Gst_bin_add_many p [src, dec, conv, sink] \<in> set new
          \<and> filter is_step new =
              [Gst_pipeline_new ''pipeline'' (Some p),
               Gst_element_factory_make ''v4l2src'' ''source'' (Some src),
               Gst_element_factory_make ''jpegdec'' ''jpegdec'' (Some dec),
               Gst_element_factory_make ''videoconvert'' ''videoconvert'' (Some conv),
               Gst_element_factory_make ''fakesink'' ''videosink'' (Some sink),
               Gst_pipeline_get_bus p (Some b),
               Gst_element_link_filtered src dec ''image/jpeg,width=1920,height=1080,framerate=30/1'' True,
               Gst_element_link dec conv True,
               Gst_element_link_filtered conv sink ''video/x-raw,format=RGBA'' True])"
    and bad: "\<not> ok \<longrightarrow> (\<exists>pre e. filter is_step new = pre @ [e] \<and> step_failed e
                        \<and> (\<forall>x \<in> set pre. \<not> step_failed x))"
    using assms
    by (auto simp: CreatePipeline_def Let_def pipeline_steps_def mjpeg_caps_string_def
        rgba_caps_string_def split: option.splits if_splits)
  have bad': "\<exists>before e after. new = before @ e # after
                        \<and> is_step e \<and> step_failed e \<and> asked lib (t @ before) e = e
                        \<and> (\<forall>x \<in> set before. \<not> step_failed x)
                        \<and> filter is_step after = []" if "\<not> ok"
  proof -
    from that bad obtain pre e where 1: "filter is_step new = pre @ [e]" "step_failed e"
      "\<forall>x \<in> set pre. \<not> step_failed x" by blast
    from filter_snoc_split [OF 1(1)] obtain before after where 2: "new = before @ e # after"
      "filter is_step before = pre" "is_step e" "filter is_step after = []" by blast
    have 3: "\<forall>x \<in> set before. \<not> step_failed x"
    proof
      fix x assume x: "x \<in> set before"
      show "\<not> step_failed x"
      proof
        assume f: "step_failed x"
        then have "is_step x" by (rule step_failed_is_step)
        with x 2(2) have "x \<in> set pre" by auto
        with 1(3) f show False by blast
      qed
    qed
    from r 2(1) have "asked lib (t @ before) e = e"
      unfolding results_from_iff by blast
    with 1(2) 2 3 show ?thesis by blast
  qed
  have iff: "ok = (\<forall>e \<in> set new. \<not> step_failed e)"
  proof (cases ok)
    case True
    with okl obtain p src dec conv sink b where l: "filter is_step new =
              [Gst_pipeline_new ''pipeline'' (Some p),
               Gst_element_factory_make ''v4l2src'' ''source'' (Some src),
               Gst_element_factory_make ''jpegdec'' ''jpegdec'' (Some dec),
               Gst_element_factory_make ''videoconvert'' ''videoconvert'' (Some conv),
               Gst_element_factory_make ''fakesink'' ''videosink'' (Some sink),
               Gst_pipeline_get_bus p (Some b),
               Gst_element_link_filtered src dec ''image/jpeg,width=1920,height=1080,framerate=30/1'' True,
               Gst_element_link dec conv True,
               Gst_element_link_filtered conv sink ''video/x-raw,format=RGBA'' True]"
      by blast
    have l2: "\<forall>x \<in> set (filter is_step new). \<not> step_failed x"
      unfolding l by simp
    have "\<forall>e \<in> set new. \<not> step_failed e"
    proof
      fix e assume e: "e \<in> set new"
      show "\<not> step_failed e"
      proof
        assume f: "step_failed e"
        then have "is_step e" by (rule step_failed_is_step)
        with e have "e \<in> set (filter is_step new)" by simp
        with l2 f show False by blast
      qed
    qed
    with True show ?thesis by simp
  next
    case False
    with bad' obtain before e after where "new = before @ e # after" "step_failed e" by blast
    with False show ?thesis by auto
  qed
  show ?thesis
  proof (intro exI [of _ new] conjI)
    show "t' = t @ new" by (fact new)
    show "results_from lib t new" by (fact r)
    show "map kind_of (filter is_step new) = take (length (filter is_step new)) pipeline_steps"
      by (fact k)
    show "ok = (\<forall>e \<in> set new. \<not> step_failed e)" by (fact iff)
    show "ok \<longrightarrow> (\<exists>p src dec conv sink b.
          gst s' = (gst s)\<lparr>pipeline := Some p, source := Some src, jpegdec := Some dec,
                            video_convert := Some conv, video_sink := Some sink, bus := Some b\<rparr>
          \<and> Gst_bin_add_many p [src, dec, conv, sink] \<in> set new
          \<and> filter is_step new =
              [Gst_pipeline_new ''pipeline'' (Some p),
               Gst_element_factory_make ''v4l2src'' ''source'' (Some src),
               Gst_element_factory_make ''jpegdec'' ''jpegdec'' (Some dec),
               Gst_element_factory_make ''videoconvert'' ''videoconvert'' (Some conv),
               Gst_element_factory_make ''fakesink'' ''videosink'' (Some sink),
               Gst_pipeline_get_bus p (Some b),
               Gst_element_link_filtered src dec ''image/jpeg,width=1920,height=1080,framerate=30/1'' True,
               Gst_element_link dec conv True,
               Gst_element_link_filtered conv sink ''video/x-raw,format=RGBA'' True])"
      by (fact okl)
    show "\<not> ok \<longrightarrow> (\<exists>before e after. new = before @ e # after
                        \<and> is_step e \<and> step_failed e \<and> asked lib (t @ before) e = e
                        \<and> (\<forall>x \<in> set before. \<not> step_failed x)
                        \<and> filter is_step after = [])"
      using bad' by (rule impI)
  qed
qed

theorem CreatePipeline_order_witness:
  "CreatePipeline example_lib_no_jpegdec example_members [] =
     (False,
      example_members\<lparr>gst := (gst example_members)\<lparr>pipeline := Some 1, source := Some 2,
                                                     jpegdec := None\<rparr>\<rparr>,
      [Gst_pipeline_new ''pipeline'' (Some 1),
       Gst_element_factory_make ''v4l2src'' ''source'' (Some 2),
       G_object_set 2 [(''device'', GString ''/dev/video34'')],
       Gst_element_factory_make ''jpegdec'' ''jpegdec'' None,
       Cerr [Str ''Failed to create jpegdec'']])
   \<and> fst (CreatePipeline example_lib example_members []) = True
   \<and> filter is_step (snd (snd (CreatePipeline example_lib example_members []))) =
       [Gst_pipeline_new ''pipeline'' (Some 1),
        Gst_element_factory_make ''v4l2src'' ''source'' (Some 2),
        Gst_element_factory_make ''jpegdec'' ''jpegdec'' (Some 3),
        Gst_element_factory_make ''videoconvert'' ''videoconvert'' (Some 4),
        Gst_element_factory_make ''fakesink'' ''videosink'' (Some 5),
        Gst_pipeline_get_bus 1 (Some 6),
        Gst_element_link_filtered 2 3 ''image/jpeg,width=1920,height=1080,framerate=30/1'' True,
        Gst_element_link 3 4 True,
        Gst_element_link_filtered 4 5 ''video/x-raw,format=RGBA'' True]
   \<and> fst (CreatePipeline example_lib_no_jpeg_link example_members []) = False
   \<and> drop 6 (filter is_step (snd (snd (CreatePipeline example_lib_no_jpeg_link example_members [])))) =
       [Gst_element_link_filtered 2 3 ''image/jpeg,width=1920,height=1080,framerate=30/1'' False]
   \<and> fst (CreatePipeline example_lib_no_plain_link example_members []) = False
   \<and> drop 6 (filter is_step (snd (snd (CreatePipeline example_lib_no_plain_link example_members [])))) =
       [Gst_element_link_filtered 2 3 ''image/jpeg,width=1920,height=1080,framerate=30/1'' True,
        Gst_element_link 3 4 False]
   \<and> fst (CreatePipeline example_lib_no_rgba_link example_members []) = False
   \<and> drop 6 (filter is_step (snd (snd (CreatePipeline example_lib_no_rgba_link example_members [])))) =
       [Gst_element_link_filtered 2 3 ''image/jpeg,width=1920,height=1080,framerate=30/1'' True,
        Gst_element_link 3 4 True,
        Gst_element_link_filtered 4 5 ''video/x-raw,format=RGBA'' False]"
proof -
  have 1: "CreatePipeline example_lib example_members [] =
             (fst (CreatePipeline example_lib example_members []),
              fst (snd (CreatePipeline example_lib example_members [])),
              snd (snd (CreatePipeline example_lib example_members [])))"
    by simp
  have 2: "fst (CreatePipeline example_lib example_members []) = True"
    by (simp add: CreatePipeline_def example_lib_def Let_def)
  have 3: "CreatePipeline example_lib_no_jpegdec example_members [] =
     (False,
      example_members\<lparr>gst := (gst example_members)\<lparr>pipeline := Some 1, source := Some 2,
                                                     jpegdec := None\<rparr>\<rparr>,
      [Gst_pipeline_new ''pipeline'' (Some 1),
       Gst_element_factory_make ''v4l2src'' ''source'' (Some 2),
       G_object_set 2 [(''device'', GString ''/dev/video34'')],
       Gst_element_factory_make ''jpegdec'' ''jpegdec'' None,
       Cerr [Str ''Failed to create jpegdec'']])"
    by (simp add: CreatePipeline_def example_lib_def example_lib_no_jpegdec_def Let_def)
  have 4: "fst (CreatePipeline example_lib_no_jpeg_link example_members []) = False"
    "drop 6 (filter is_step (snd (snd (CreatePipeline example_lib_no_jpeg_link example_members [])))) =
       [Gst_element_link_filtered 2 3 ''image/jpeg,width=1920,height=1080,framerate=30/1'' False]"
    by (simp_all add: CreatePipeline_def example_lib_def example_lib_no_jpeg_link_def Let_def
        mjpeg_caps_string_def rgba_caps_string_def)
  have 5: "fst (CreatePipeline example_lib_no_plain_link example_members []) = False"
    "drop 6 (filter is_step (snd (snd (CreatePipeline example_lib_no_plain_link example_members [])))) =
       [Gst_element_link_filtered 2 3 ''image/jpeg,width=1920,height=1080,framerate=30/1'' True,
        Gst_element_link 3 4 False]"
    by (simp_all add: CreatePipeline_def example_lib_def example_lib_no_plain_link_def Let_def
        mjpeg_caps_string_def rgba_caps_string_def)
  have 6: "fst (CreatePipeline example_lib_no_rgba_link example_members []) = False"
    "drop 6 (filter is_step (snd (snd (CreatePipeline example_lib_no_rgba_link example_members [])))) =
       [Gst_element_link_filtered 2 3 ''image/jpeg,width=1920,height=1080,framerate=30/1'' True,
        Gst_element_link 3 4 True,
        Gst_element_link_filtered 4 5 ''video/x-raw,format=RGBA'' False]"
    by (simp_all add: CreatePipeline_def example_lib_def example_lib_no_rgba_link_def Let_def
        mjpeg_caps_string_def rgba_caps_string_def)
  from CreatePipeline_order [OF 1] 2
  have 7: "filter is_step (snd (snd (CreatePipeline example_lib example_members []))) =
       [Gst_pipeline_new ''pipeline'' (Some 1),
        Gst_element_factory_make ''v4l2src'' ''source'' (Some 2),
        Gst_element_factory_make ''jpegdec'' ''jpegdec'' (Some 3),
        Gst_element_factory_make ''videoconvert'' ''videoconvert'' (Some 4),
        Gst_element_factory_make ''fakesink'' ''videosink'' (Some 5),
        Gst_pipeline_get_bus 1 (Some 6),
        Gst_element_link_filtered 2 3 ''image/jpeg,width=1920,height=1080,framerate=30/1'' True,
        Gst_element_link 3 4 True,
        Gst_element_link_filtered 4 5 ''video/x-raw,format=RGBA'' True]"
    by (simp add: CreatePipeline_def example_lib_def Let_def mjpeg_caps_string_def
        rgba_caps_string_def)
  from 2 3 4 5 6 7 show ?thesis by simp
qed

text \<open>
  The result follows the library's answers: a library that refuses a link makes
  \<open>CreatePipeline\<close> return false, whatever else it answers.
\<close>

lemma CreatePipeline_refused_link:
  assumes "(\<forall>h a b caps. \<not> gst_element_link_filtered lib h a b caps)
           \<or> (\<forall>h a b. \<not> gst_element_link lib h a b)"
  shows "\<not> fst (CreatePipeline lib s t)"
  using assms by (auto simp: CreatePipeline_def Let_def split: option.splits)

subsection \<open>TakePicture and the capture callback\<close>

lemma HandleGstMessage_image_done:
  assumes "msg_type m = GST_MESSAGE_ELEMENT" and "msg_structure m = Some st"
      and "gst_structure_has_name st ''image-done''"
      and "gst_structure_get_string st ''filename'' = Some filename"
      and "on_notify_captured_' s = Some cb"
  shows "HandleGstMessage s m t =
           Inr (GST_BUS_DROP, t @ [On_notify_captured cb filename, Gst_message_unref (msg_id m)])"
  using assms by (simp add: HandleGstMessage_def)

text \<open>
  C2. \<open>TakePicture\<close> with a callback \<open>cb\<close> stores \<open>cb\<close> and writes one log line, that
  taking a picture is not supported; it calls nothing in the library, so no capture is
  started. From then on, until \<open>TakePicture\<close> is called again and whatever else is
  called in between, an ELEMENT message whose structure is named "image-done" and has
  the string "filename" makes the handler call \<open>cb\<close> once, with that string.
\<close>

theorem TakePicture_callback_notified:
  assumes "msg_type m = GST_MESSAGE_ELEMENT" and "msg_structure m = Some st"
      and "gst_structure_has_name st ''image-done''"
      and "gst_structure_get_string st ''filename'' = Some filename"
      and "TakePicture s0 (Some cb) t0 = (s1, t1)"
      and "run lib cs s1 t1 = Inr (s, t)" and "\<forall>c \<in> set cs. \<not> is_TakePicture c"
  shows "s1 = s0\<lparr>on_notify_captured_' := Some cb\<rparr>
     \<and> t1 = t0 @ [Cerr [Str ''TakePicture is not supported with v4l2src pipeline'']]
     \<and> HandleGstMessage s m t =
         Inr (GST_BUS_DROP, t @ [On_notify_captured cb filename, Gst_message_unref (msg_id m)])"
proof -
  from assms(5) have 1: "s1 = s0\<lparr>on_notify_captured_' := Some cb\<rparr>"
    "t1 = t0 @ [Cerr [Str ''TakePicture is not supported with v4l2src pipeline'']]"
    by (auto simp: TakePicture_def)
  from run_keeps_callback [OF assms(6,7)] 1 have "on_notify_captured_' s = Some cb" by simp
  from HandleGstMessage_image_done [OF assms(1-4) this] 1 show ?thesis by simp
qed

theorem TakePicture_callback_notified_witness:
  "TakePicture example_camera (Some 8) [] =
     (example_camera\<lparr>on_notify_captured_' := Some 8\<rparr>,
      [Cerr [Str ''TakePicture is not supported with v4l2src pipeline'']])
   \<and> run example_lib [Call_Pause, Call_GetZoomMaxMinSize]
        (example_camera\<lparr>on_notify_captured_' := Some 8\<rparr>)
        [Cerr [Str ''TakePicture is not supported with v4l2src pipeline'']] =
       Inr (example_camera\<lparr>on_notify_captured_' := Some 8\<rparr>,
            [Cerr [Str ''TakePicture is not supported with v4l2src pipeline''],
             Gst_element_set_state (Some 1) GST_STATE_PAUSED GST_STATE_CHANGE_ASYNC])
   \<and> HandleGstMessage (example_camera\<lparr>on_notify_captured_' := Some 8\<rparr>) example_image_done
        [Cerr [Str ''TakePicture is not supported with v4l2src pipeline''],
         Gst_element_set_state (Some 1) GST_STATE_PAUSED GST_STATE_CHANGE_ASYNC] =
       Inr (GST_BUS_DROP,
            [Cerr [Str ''TakePicture is not supported with v4l2src pipeline''],
             Gst_element_set_state (Some 1) GST_STATE_PAUSED GST_STATE_CHANGE_ASYNC,
             On_notify_captured 8 ''/tmp/capture.jpg'',
             Gst_message_unref 9])"
proof -
  let ?st = "\<lparr>struct_name = ''image-done'', int_fields = [],
              string_fields = [(''filename'', ''/tmp/capture.jpg'')]\<rparr>"
  have 1: "msg_type example_image_done = GST_MESSAGE_ELEMENT"
    and 2: "msg_structure example_image_done = Some ?st"
    and 3: "gst_structure_has_name ?st ''image-done''"
    and f: "gst_structure_get_string ?st ''filename'' = Some ''/tmp/capture.jpg''"
    by (simp_all add: example_image_done_def gst_structure_has_name_def gst_structure_get_string_def)
  have 4: "TakePicture example_camera (Some 8) [] =
     (example_camera\<lparr>on_notify_captured_' := Some 8\<rparr>,
      [Cerr [Str ''TakePicture is not supported with v4l2src pipeline'']])"
    by (simp add: TakePicture_def)
  have 5: "run example_lib [Call_Pause, Call_GetZoomMaxMinSize]
        (example_camera\<lparr>on_notify_captured_' := Some 8\<rparr>)
        [Cerr [Str ''TakePicture is not supported with v4l2src pipeline'']] =
       Inr (example_camera\<lparr>on_notify_captured_' := Some 8\<rparr>,
            [Cerr [Str ''TakePicture is not supported with v4l2src pipeline''],
             Gst_element_set_state (Some 1) GST_STATE_PAUSED GST_STATE_CHANGE_ASYNC])"
    by (simp add: Pause_def example_lib_def example_camera_eq)
  have 6: "\<forall>c \<in> set [Call_Pause, Call_GetZoomMaxMinSize]. \<not> is_TakePicture c" by simp
  from TakePicture_callback_notified [OF 1 2 3 f 4 5 6] 4 5 show ?thesis
    by (simp add: example_image_done_def)
qed

text \<open>
  When the callable given to \<open>TakePicture\<close> is empty, the test in the handler keeps it
  from being called: an ELEMENT message is only released.
\<close>

lemma TakePicture_empty_callback:
  assumes "msg_type m = GST_MESSAGE_ELEMENT"
  shows "HandleGstMessage (fst (TakePicture s None t0)) m t =
           Inr (GST_BUS_DROP, t @ [Gst_message_unref (msg_id m)])"
  using assms by (simp add: HandleGstMessage_def TakePicture_def split: option.splits bool.splits)

text \<open>
  When a callback is stored and the "image-done" structure has no "filename" string, the
  handler reaches the fault: no callback, no release of the message, no return.
\<close>

lemma HandleGstMessage_no_filename:
  assumes "msg_type m = GST_MESSAGE_ELEMENT" and "msg_structure m = Some st"
      and "gst_structure_has_name st ''image-done''"
      and "gst_structure_get_string st ''filename'' = None"
      and "on_notify_captured_' s = Some cb"
  shows "HandleGstMessage s m t = Inl String_from_null"
  using assms by (simp add: HandleGstMessage_def)

subsection \<open>Play, Pause, Stop\<close>

text \<open>
  C5. Each of Play, Pause and Stop first issues the state-change call and returns false
  exactly when that call returns \<open>GST_STATE_CHANGE_FAILURE\<close>, true otherwise. When the
  state change of Play is asynchronous and the wait for the PLAYING state fails, Play
  still returns true: the failure is only logged.
\<close>

theorem Play_Pause_Stop_status:
  "fst (Play lib s t) =
     (gst_element_set_state lib t (pipeline (gst s)) GST_STATE_PLAYING \<noteq> GST_STATE_CHANGE_FAILURE)
   \<and> fst (Pause lib s t) =
     (gst_element_set_state lib t (pipeline (gst s)) GST_STATE_PAUSED \<noteq> GST_STATE_CHANGE_FAILURE)
   \<and> fst (Stop lib s t) =
     (gst_element_set_state lib t (pipeline (gst s)) GST_STATE_READY \<noteq> GST_STATE_CHANGE_FAILURE)
   \<and> (\<exists>rest. snd (Play lib s t) =
         t @ Gst_element_set_state (pipeline (gst s)) GST_STATE_PLAYING
               (gst_element_set_state lib t (pipeline (gst s)) GST_STATE_PLAYING) # rest)
   \<and> (\<exists>rest. snd (Pause lib s t) =
         t @ Gst_element_set_state (pipeline (gst s)) GST_STATE_PAUSED
               (gst_element_set_state lib t (pipeline (gst s)) GST_STATE_PAUSED) # rest)
   \<and> (\<exists>rest. snd (Stop lib s t) =
         t @ Gst_element_set_state (pipeline (gst s)) GST_STATE_READY
               (gst_element_set_state lib t (pipeline (gst s)) GST_STATE_READY) # rest)
   \<and> (gst_element_set_state lib t (pipeline (gst s)) GST_STATE_PLAYING = GST_STATE_CHANGE_ASYNC
        \<and> gst_element_get_state lib
             (t @ [Gst_element_set_state (pipeline (gst s)) GST_STATE_PLAYING GST_STATE_CHANGE_ASYNC])
             (pipeline (gst s)) = GST_STATE_CHANGE_FAILURE
      \<longrightarrow> Play lib s t =
            (True, t @ [Gst_element_set_state (pipeline (gst s)) GST_STATE_PLAYING GST_STATE_CHANGE_ASYNC,
                        Gst_element_get_state (pipeline (gst s)) GST_STATE_CHANGE_FAILURE,
                        Cerr [Str ''Failed to get the current state'']]))"
  by (simp add: Play_def Pause_def Stop_def Let_def)

theorem Play_Pause_Stop_status_witness:
  "Play example_lib_wait_fails example_camera [] =
     (True, [Gst_element_set_state (Some 1) GST_STATE_PLAYING GST_STATE_CHANGE_ASYNC,
             Gst_element_get_state (Some 1) GST_STATE_CHANGE_FAILURE,
             Cerr [Str ''Failed to get the current state'']])
   \<and> fst (Pause example_lib_wait_fails example_camera []) = True
   \<and> fst (Stop example_lib_wait_fails example_camera []) = True
   \<and> Stop (example_lib\<lparr>gst_element_set_state := (\<lambda>t e st. GST_STATE_CHANGE_FAILURE)\<rparr>)
        example_camera [] =
       (False, [Gst_element_set_state (Some 1) GST_STATE_READY GST_STATE_CHANGE_FAILURE,
                Cerr [Str ''Failed to change the state to READY'']])"
  using Play_Pause_Stop_status [of example_lib_wait_fails example_camera "[]"]
        Play_Pause_Stop_status [of "example_lib\<lparr>gst_element_set_state := (\<lambda>t e st. GST_STATE_CHANGE_FAILURE)\<rparr>"
                                   example_camera "[]"]
  by (simp add: example_lib_wait_fails_def example_lib_def example_camera_eq
      Play_def Pause_def Stop_def Let_def)

subsection \<open>SetZoomLevel\<close>



text \<open>
  Outside the two cases of the property: a NaN passes both comparisons, and its conversion
  to \<open>int\<close> is undefined.
\<close>

lemma float_less_NaN: "\<not> float_less a NaN"
  by (cases a) simp_all

lemma SetZoomLevel_NaN:
  "source (gst s) \<noteq> None \<Longrightarrow> SetZoomLevel s NaN t = Inl Float_to_int_out_of_range"
  by (auto simp: SetZoomLevel_def float_greater_def float_to_int_def float_less_NaN)

text \<open>
  C8. On a constructed object with a source element, a \<open>zoom\<close> between the stored bounds
  is a finite number \<open>q\<close>, and the control "zoom-absolute" is set to \<open>q\<close> truncated
  toward zero: an integer no larger in magnitude than \<open>q\<close> and less than one away from
  it. So 2.0 and 2.9 (as a decimal, and as the binary32 number nearest to it) both set
  the control to 2.
\<close>

theorem SetZoomLevel_truncates:
  assumes "zoom_bounds_inv s" and "source (gst s) = Some h" and "zoom_in_range s zoom"
  shows "\<exists>q. zoom = Finite q
     \<and> SetZoomLevel s zoom t =
         Inr (True, t @ [Gst_structure_new (zoom_controls (truncate_toward_zero q)),
                         G_object_set h [(''extra-controls'',
                                          GStructurePtr (zoom_controls (truncate_toward_zero q)))],
                         Cout [Str ''Set zoom level to: '', Int_val (truncate_toward_zero q)]])
     \<and> \<bar>of_int (truncate_toward_zero q)\<bar> \<le> \<bar>q\<bar>
     \<and> \<bar>q - of_int (truncate_toward_zero q)\<bar> < 1"
proof -
  from assms have b: "max_zoom_level_' s = Finite 3" "min_zoom_level_' s = Finite 0"
    by (simp_all add: zoom_bounds_inv_def)
  with assms(3) obtain q where q: "zoom = Finite q" "0 \<le> q" "q \<le> 3"
    using float_le_bounds [of 0 zoom 3] by (auto simp: zoom_in_range_def)
  have "SetZoomLevel s zoom t =
         Inr (True, t @ [Gst_structure_new (zoom_controls (truncate_toward_zero q)),
                         G_object_set h [(''extra-controls'',
                                          GStructurePtr (zoom_controls (truncate_toward_zero q)))],
                         Cout [Str ''Set zoom level to: '', Int_val (truncate_toward_zero q)]])"
    using assms(2) b q float_to_int_small [of q]
    by (auto simp: SetZoomLevel_def float_greater_def zoom_controls_def Let_def)
  with q(1) truncate_toward_zero_char [of q] show ?thesis by blast
qed

theorem SetZoomLevel_truncates_witness:
  "SetZoomLevel example_camera (Finite 2) [] =
     Inr (True, [Gst_structure_new (zoom_controls 2),
                 G_object_set 2 [(''extra-controls'', GStructurePtr (zoom_controls 2))],
                 Cout [Str ''Set zoom level to: '', Int_val 2]])
   \<and> SetZoomLevel example_camera (Finite (29 / 10)) [] =
     Inr (True, [Gst_structure_new (zoom_controls 2),
                 G_object_set 2 [(''extra-controls'', GStructurePtr (zoom_controls 2))],
                 Cout [Str ''Set zoom level to: '', Int_val 2]])
   \<and> SetZoomLevel example_camera (Finite (6081741 / 2097152)) [] =
     Inr (True, [Gst_structure_new (zoom_controls 2),
                 G_object_set 2 [(''extra-controls'', GStructurePtr (zoom_controls 2))],
                 Cout [Str ''Set zoom level to: '', Int_val 2]])"
proof -
  have inv: "zoom_bounds_inv example_camera"
    by (simp add: example_camera_eq zoom_bounds_inv_def)
  have src: "source (gst example_camera) = Some 2"
    by (simp add: example_camera_eq)
  have r: "zoom_in_range example_camera (Finite 2)"
    "zoom_in_range example_camera (Finite (29 / 10))"
    "zoom_in_range example_camera (Finite (6081741 / 2097152))"
    by (simp_all add: example_camera_eq zoom_in_range_def)
  have tr: "truncate_toward_zero 2 = 2" "truncate_toward_zero (29 / 10) = 2"
    "truncate_toward_zero (6081741 / 2097152) = 2"
    by (simp_all add: truncate_toward_zero_def floor_eq_iff)
  from SetZoomLevel_truncates [OF inv src r(1), of "[]"] tr(1)
  have 1: "SetZoomLevel example_camera (Finite 2) [] =
     Inr (True, [Gst_structure_new (zoom_controls 2),
                 G_object_set 2 [(''extra-controls'', GStructurePtr (zoom_controls 2))],
                 Cout [Str ''Set zoom level to: '', Int_val 2]])"
    by (metis append_Nil cfloat.inject)
  from SetZoomLevel_truncates [OF inv src r(2), of "[]"] tr(2)
  have 2: "SetZoomLevel example_camera (Finite (29 / 10)) [] =
     Inr (True, [Gst_structure_new (zoom_controls 2),
                 G_object_set 2 [(''extra-controls'', GStructurePtr (zoom_controls 2))],
                 Cout [Str ''Set zoom level to: '', Int_val 2]])"
    by (metis append_Nil cfloat.inject)
  from SetZoomLevel_truncates [OF inv src r(3), of "[]"] tr(3)
  have 3: "SetZoomLevel example_camera (Finite (6081741 / 2097152)) [] =
     Inr (True, [Gst_structure_new (zoom_controls 2),
                 G_object_set 2 [(''extra-controls'', GStructurePtr (zoom_controls 2))],
                 Cout [Str ''Set zoom level to: '', Int_val 2]])"
    by (metis append_Nil cfloat.inject)
  from 1 2 3 show ?thesis by simp
qed

subsection \<open>The zoom range\<close>

text \<open>
  C4. \<open>GetZoomMaxMinSize\<close> gives max = 3.0 and min = 0.0 whatever the object. The
  bounds the constructor stores are these two numbers: it stores them when
  \<open>CreatePipeline\<close> has succeeded, and when \<open>CreatePipeline\<close> has failed it returns
  before the two assignments, leaving both members as they were. No method or callback
  writes the two members, so they are the same after any sequence of calls and after the
  destructor: the zoom range of an object never changes.
\<close>

theorem zoom_bounds_fixed:
  "GetZoomMaxMinSize s = (Finite 3, Finite 0)
   \<and> (max_zoom_level_' (fst (GstCamera_new lib members handler t0)),
      min_zoom_level_' (fst (GstCamera_new lib members handler t0)))
     = (if fst (CreatePipeline lib (members\<lparr>stream_handler_' := handler,
              gst := \<lparr>pipeline = None, source = None, jpegdec = None, video_convert = None,
                      video_sink = None, output' = None, bus = None, buffer = None\<rparr>\<rparr>) t0)
        then GetZoomMaxMinSize (fst (GstCamera_new lib members handler t0))
        else (max_zoom_level_' members, min_zoom_level_' members))
   \<and> (\<forall>cs s' t'. run lib cs s t = Inr (s', t')
        \<longrightarrow> max_zoom_level_' s' = max_zoom_level_' s \<and> min_zoom_level_' s' = min_zoom_level_' s)
   \<and> max_zoom_level_' (fst (GstCamera_delete lib s t)) = max_zoom_level_' s
   \<and> min_zoom_level_' (fst (GstCamera_delete lib s t)) = min_zoom_level_' s"
proof (intro conjI allI impI)
  show "GetZoomMaxMinSize s = (Finite 3, Finite 0)" by (simp add: GetZoomMaxMinSize_def)
next
  show "(max_zoom_level_' (fst (GstCamera_new lib members handler t0)),
      min_zoom_level_' (fst (GstCamera_new lib members handler t0)))
     = (if fst (CreatePipeline lib (members\<lparr>stream_handler_' := handler,
              gst := \<lparr>pipeline = None, source = None, jpegdec = None, video_convert = None,
                      video_sink = None, output' = None, bus = None, buffer = None\<rparr>\<rparr>) t0)
        then GetZoomMaxMinSize (fst (GstCamera_new lib members handler t0))
        else (max_zoom_level_' members, min_zoom_level_' members))"
  proof (cases "CreatePipeline lib (members\<lparr>stream_handler_' := handler,
              gst := \<lparr>pipeline = None, source = None, jpegdec = None, video_convert = None,
                      video_sink = None, output' = None, bus = None, buffer = None\<rparr>\<rparr>) t0")
    case (fields ok s1 t1)
    have "max_zoom_level_' s1 = max_zoom_level_' members \<and> min_zoom_level_' s1 = min_zoom_level_' members"
      using fields by (auto simp: CreatePipeline_def Let_def split: option.splits if_splits)
    with fields show ?thesis
      by (simp add: GstCamera_new_def GetZoomMaxMinSize_def DestroyPipeline_def Let_def)
  qed
next
  fix cs s' t' assume "run lib cs s t = Inr (s', t')"
  from run_keeps_zoom_members [OF this]
  show "max_zoom_level_' s' = max_zoom_level_' s" "min_zoom_level_' s' = min_zoom_level_' s"
    by simp_all
next
  show "max_zoom_level_' (fst (GstCamera_delete lib s t)) = max_zoom_level_' s"
       "min_zoom_level_' (fst (GstCamera_delete lib s t)) = min_zoom_level_' s"
    by (simp_all add: GstCamera_delete_def DestroyPipeline_def Let_def)
qed

theorem zoom_bounds_fixed_witness:
  "GetZoomMaxMinSize example_camera = (Finite 3, Finite 0)
   \<and> (max_zoom_level_' example_camera, min_zoom_level_' example_camera) = (Finite 3, Finite 0)
   \<and> (max_zoom_level_' (fst (GstCamera_new example_lib_no_jpegdec example_members (Some 7) [])),
      min_zoom_level_' (fst (GstCamera_new example_lib_no_jpegdec example_members (Some 7) [])))
     = (Finite 7, Finite 5)
   \<and> run example_lib
        [Call_SetZoomLevel (Finite 1), Call_TakePicture (Some 8),
         Call_HandoffHandler 5 20 example_pad, Call_GetPreviewFrameBuffer,
         Call_HandleGstMessage example_image_done, Call_Stop]
        example_camera [] =
       Inr (example_streaming\<lparr>pixels_' := Some 106, on_notify_captured_' := Some 8\<rparr>,
            [Gst_structure_new (zoom_controls 1),
             G_object_set 2 [(''extra-controls'', GStructurePtr (zoom_controls 1))],
             Cout [Str ''Set zoom level to: '', Int_val 1],
             Cerr [Str ''TakePicture is not supported with v4l2src pipeline''],
             Gst_pad_get_current_caps 30,
             Gst_caps_unref (Caps_of_pad 30),
             Operator_new_uint32 2073600 106,
             Pixels_reset None 106,
             Cout [Str ''Pixel buffer size: width = '', Int_val 1920,
                   Str '', height = '', Int_val 1080],
             Lock_exclusive,
             Gst_buffer_ref 20,
             OnNotifyFrameDecoded 7,
             Unlock_exclusive,
             Lock_shared,
             Gst_buffer_extract 20 0 (Some 106) 8294400,
             Unlock_shared,
             On_notify_captured 8 ''/tmp/capture.jpg'',
             Gst_message_unref 9,
             Gst_element_set_state (Some 1) GST_STATE_READY GST_STATE_CHANGE_ASYNC])
   \<and> max_zoom_level_' (example_streaming\<lparr>pixels_' := Some 106, on_notify_captured_' := Some 8\<rparr>)
       = Finite 3
   \<and> min_zoom_level_' (example_streaming\<lparr>pixels_' := Some 106, on_notify_captured_' := Some 8\<rparr>)
       = Finite 0"
proof -
  have 1: "fst (CreatePipeline example_lib (example_members\<lparr>stream_handler_' := Some 7,
              gst := \<lparr>pipeline = None, source = None, jpegdec = None, video_convert = None,
                      video_sink = None, output' = None, bus = None, buffer = None\<rparr>\<rparr>) [])"
    by (simp add: CreatePipeline_def example_lib_def Let_def)
  have 2: "run example_lib
        [Call_SetZoomLevel (Finite 1), Call_TakePicture (Some 8),
         Call_HandoffHandler 5 20 example_pad, Call_GetPreviewFrameBuffer,
         Call_HandleGstMessage example_image_done, Call_Stop]
        example_camera [] =
       Inr (example_streaming\<lparr>pixels_' := Some 106, on_notify_captured_' := Some 8\<rparr>,
            [Gst_structure_new (zoom_controls 1),
             G_object_set 2 [(''extra-controls'', GStructurePtr (zoom_controls 1))],
             Cout [Str ''Set zoom level to: '', Int_val 1],
             Cerr [Str ''TakePicture is not supported with v4l2src pipeline''],
             Gst_pad_get_current_caps 30,
             Gst_caps_unref (Caps_of_pad 30),
             Operator_new_uint32 2073600 106,
             Pixels_reset None 106,
             Cout [Str ''Pixel buffer size: width = '', Int_val 1920,
                   Str '', height = '', Int_val 1080],
             Lock_exclusive,
             Gst_buffer_ref 20,
             OnNotifyFrameDecoded 7,
             Unlock_exclusive,
             Lock_shared,
             Gst_buffer_extract 20 0 (Some 106) 8294400,
             Unlock_shared,
             On_notify_captured 8 ''/tmp/capture.jpg'',
             Gst_message_unref 9,
             Gst_element_set_state (Some 1) GST_STATE_READY GST_STATE_CHANGE_ASYNC])"
    by (simp add: example_streaming_def example_camera_eq example_lib_def example_pad_def
        example_image_done_def SetZoomLevel_def TakePicture_def HandoffHandler_def
        GetPreviewFrameBuffer_def HandleGstMessage_def Stop_def float_greater_def float_to_int_def
        truncate_toward_zero_def int_mul_def to_uint32_def INT_MIN_def INT_MAX_def
        gst_structure_get_int_def gst_caps_get_structure0_def gst_structure_has_name_def
        gst_structure_get_string_def zoom_controls_def Let_def)
  note w = zoom_bounds_fixed [where s = example_camera and lib = example_lib
         and members = example_members and handler = "Some 7" and ?t0.0 = "[]" and t = "[]"]
  from w have 3: "GetZoomMaxMinSize example_camera = (Finite 3, Finite 0)"
    by simp
  from w 1 have 4: "(max_zoom_level_' example_camera, min_zoom_level_' example_camera) =
      GetZoomMaxMinSize example_camera"
    by (simp add: example_camera_def)
  have 6: "\<not> fst (CreatePipeline example_lib_no_jpegdec (example_members\<lparr>stream_handler_' := Some 7,
              gst := \<lparr>pipeline = None, source = None, jpegdec = None, video_convert = None,
                      video_sink = None, output' = None, bus = None, buffer = None\<rparr>\<rparr>) [])"
    by (simp add: CreatePipeline_def example_lib_no_jpegdec_def example_lib_def Let_def)
  from zoom_bounds_fixed [where s = example_camera and lib = example_lib_no_jpegdec
         and members = example_members and handler = "Some 7" and ?t0.0 = "[]" and t = "[]"] 6
  have 7: "(max_zoom_level_' (fst (GstCamera_new example_lib_no_jpegdec example_members (Some 7) [])),
      min_zoom_level_' (fst (GstCamera_new example_lib_no_jpegdec example_members (Some 7) [])))
     = (Finite 7, Finite 5)"
    by (simp add: example_members_def)
  from w 2 have 5:
    "max_zoom_level_' (example_streaming\<lparr>pixels_' := Some 106, on_notify_captured_' := Some 8\<rparr>)
       = max_zoom_level_' example_camera
     \<and> min_zoom_level_' (example_streaming\<lparr>pixels_' := Some 106, on_notify_captured_' := Some 8\<rparr>)
       = min_zoom_level_' example_camera"
    by blast
  from 2 3 4 5 7 show ?thesis by simp
qed

subsection \<open>GetPreviewFrameBuffer\<close>

text \<open>
  C6. \<open>GetPreviewFrameBuffer\<close> returns null when no frame buffer is held, having done
  nothing but take and release the shared lock. When a buffer is held and
  \<open>width_ * height_ * 4\<close> is a size an \<open>int\<close> can hold, it asks the library to extract
  exactly that many bytes, from offset 0 of the held buffer into the pixel buffer, and
  returns the pointer to the pixel buffer. It writes no member in either case: the object
  state after the call is the state before it.
\<close>

theorem GetPreviewFrameBuffer_result:
  "(buffer (gst s) = None \<longrightarrow>
      GetPreviewFrameBuffer s t = Inr (None, t @ [Lock_shared, Unlock_shared]))
   \<and> (\<forall>b. buffer (gst s) = Some b \<and> 0 \<le> width_' s * height_' s
           \<and> width_' s * height_' s * 4 \<le> INT_MAX \<longrightarrow>
      GetPreviewFrameBuffer s t =
        Inr (pixels_' s,
             t @ [Lock_shared,
                  Gst_buffer_extract b 0 (pixels_' s) (nat (width_' s * height_' s * 4)),
                  Unlock_shared]))
   \<and> (\<forall>r t'. GetPreviewFrameBuffer s t = Inr (r, t') \<longrightarrow>
        step lib Call_GetPreviewFrameBuffer s t = Inr (s, t'))"
proof (intro conjI allI impI)
  assume "buffer (gst s) = None"
  then show "GetPreviewFrameBuffer s t = Inr (None, t @ [Lock_shared, Unlock_shared])"
    by (simp add: GetPreviewFrameBuffer_def)
next
  fix b
  assume a: "buffer (gst s) = Some b \<and> 0 \<le> width_' s * height_' s
           \<and> width_' s * height_' s * 4 \<le> INT_MAX"
  then show "GetPreviewFrameBuffer s t =
        Inr (pixels_' s,
             t @ [Lock_shared,
                  Gst_buffer_extract b 0 (pixels_' s) (nat (width_' s * height_' s * 4)),
                  Unlock_shared])"
    using pixel_bytes_exact [of "width_' s" "height_' s"]
    by (simp add: GetPreviewFrameBuffer_def)
next
  fix r t'
  assume "GetPreviewFrameBuffer s t = Inr (r, t')"
  then show "step lib Call_GetPreviewFrameBuffer s t = Inr (s, t')" by simp
qed

theorem GetPreviewFrameBuffer_result_witness:
  "GetPreviewFrameBuffer example_camera [] = Inr (None, [Lock_shared, Unlock_shared])
   \<and> GetPreviewFrameBuffer example_streaming [] =
       Inr (Some 102, [Lock_shared, Gst_buffer_extract 20 0 (Some 102) 8294400, Unlock_shared])
   \<and> step example_lib Call_GetPreviewFrameBuffer example_streaming [] =
       Inr (example_streaming,
            [Lock_shared, Gst_buffer_extract 20 0 (Some 102) 8294400, Unlock_shared])"
proof -
  have 1: "buffer (gst example_camera) = None"
    by (simp add: example_camera_eq)
  have 2: "buffer (gst example_streaming) = Some 20
           \<and> 0 \<le> width_' example_streaming * height_' example_streaming
           \<and> width_' example_streaming * height_' example_streaming * 4 \<le> INT_MAX"
    by (simp add: example_streaming_def INT_MAX_def)
  have 3: "pixels_' example_streaming = Some 102"
    "nat (width_' example_streaming * height_' example_streaming * 4) = 8294400"
    by (simp_all add: example_streaming_def)
  from GetPreviewFrameBuffer_result [of example_camera "[]" example_lib]
       GetPreviewFrameBuffer_result [of example_streaming "[]" example_lib] 1 2 3
  show ?thesis by simp
qed

subsection \<open>HandoffHandler\<close>

text \<open>
  C9. Take a handoff whose pad caps carry the \<open>int\<close> fields width \<open>w\<close> and height
  \<open>h\<close>, on an object with a stream handler, and, when the size differs from the stored
  one, with \<open>w * h\<close> a length \<open>new\<close> accepts. Then \<open>HandoffHandler\<close> returns, and
  \<^item> when \<open>w\<close> and \<open>h\<close> equal the stored width and height, nothing is allocated and the
    only member written is \<open>gst_.buffer\<close>: \<open>pixels_\<close>, \<open>width_\<close> and \<open>height_\<close>
    are as before;
  \<^item> when one of them differs, one array of \<open>w * h\<close> elements is allocated and becomes
    \<open>pixels_\<close>, and \<open>width_\<close> and \<open>height_\<close> become \<open>w\<close> and \<open>h\<close>;
  \<^item> in both cases the events end with: the exclusive lock, the release of the buffer held
    before (if there is one), the reference to the new buffer, one notification of the
    stream handler, the unlock; nothing before the lock touches a buffer reference or
    notifies. So the object never holds more than one buffer reference, holds the new
    buffer at the end, and the handler is notified exactly once.
\<close>

theorem HandoffHandler_effect:
  assumes "caps_int new_pad ''width'' = Some w"
      and "caps_int new_pad ''height'' = Some h"
      and "stream_handler_' s = Some handler"
      and "w \<noteq> width_' s \<or> h \<noteq> height_' s \<longrightarrow> 0 \<le> w * h \<and> w * h \<le> INT_MAX"
  shows "\<exists>s' pre. HandoffHandler lib s fakesink buf new_pad t =
            Inr (s', t @ pre @ [Lock_exclusive]
                       @ (case buffer (gst s) of None \<Rightarrow> [] | Some old \<Rightarrow> [Gst_buffer_unref old])
                       @ [Gst_buffer_ref buf, OnNotifyFrameDecoded handler, Unlock_exclusive])
     \<and> filter is_buffer_ref_change pre = [] \<and> filter is_frame_notification pre = []
     \<and> (w = width_' s \<and> h = height_' s \<longrightarrow>
           s' = s\<lparr>gst := (gst s)\<lparr>buffer := Some buf\<rparr>\<rparr> \<and> filter is_allocation pre = [])
     \<and> (w \<noteq> width_' s \<or> h \<noteq> height_' s \<longrightarrow>
           (\<exists>a. s' = s\<lparr>width_' := w, height_' := h, pixels_' := Some a,
                        gst := (gst s)\<lparr>buffer := Some buf\<rparr>\<rparr>
                \<and> filter is_allocation pre =
                    [Operator_new_uint32 (nat (w * h)) a, Pixels_reset (pixels_' s) a]))
     \<and> peak_refs (held_refs s)
          (pre @ [Lock_exclusive]
             @ (case buffer (gst s) of None \<Rightarrow> [] | Some old \<Rightarrow> [Gst_buffer_unref old])
             @ [Gst_buffer_ref buf, OnNotifyFrameDecoded handler, Unlock_exclusive]) = 1
     \<and> held_refs s' = 1
     \<and> length (filter is_frame_notification
          (pre @ [Lock_exclusive]
             @ (case buffer (gst s) of None \<Rightarrow> [] | Some old \<Rightarrow> [Gst_buffer_unref old])
             @ [Gst_buffer_ref buf, OnNotifyFrameDecoded handler, Unlock_exclusive])) = 1"
proof (cases "w \<noteq> width_' s \<or> h \<noteq> height_' s")
  case True
  with assms(4) have "int_mul w h = Inr (w * h)" "\<not> w * h < 0"
    by (simp_all add: int_mul_def INT_MIN_def)
  with True assms(1-3) show ?thesis
    by (auto simp: HandoffHandler_def caps_int_def Let_def held_refs_def split: option.splits)
next
  case False
  with assms(1-3) show ?thesis
    by (auto simp: HandoffHandler_def caps_int_def Let_def held_refs_def split: option.splits)
qed

theorem HandoffHandler_effect_witness:
  "HandoffHandler example_lib example_camera 5 20 example_pad [] =
     Inr (example_streaming,
          [Gst_pad_get_current_caps 30, Gst_caps_unref (Caps_of_pad 30),
           Operator_new_uint32 2073600 102, Pixels_reset None 102,
           Cout [Str ''Pixel buffer size: width = '', Int_val 1920,
                 Str '', height = '', Int_val 1080],
           Lock_exclusive, Gst_buffer_ref 20, OnNotifyFrameDecoded 7, Unlock_exclusive])
   \<and> HandoffHandler example_lib example_streaming 5 21 example_pad [] =
     Inr (example_streaming\<lparr>gst := (gst example_streaming)\<lparr>buffer := Some 21\<rparr>\<rparr>,
          [Gst_pad_get_current_caps 30, Gst_caps_unref (Caps_of_pad 30),
           Lock_exclusive, Gst_buffer_unref 20, Gst_buffer_ref 21, OnNotifyFrameDecoded 7,
           Unlock_exclusive])"
proof -
  have c: "caps_int example_pad ''width'' = Some 1920" "caps_int example_pad ''height'' = Some 1080"
    by (simp_all add: caps_int_def example_pad_def gst_structure_get_int_def
        gst_caps_get_structure0_def)
  have h: "stream_handler_' example_camera = Some 7" "stream_handler_' example_streaming = Some 7"
    by (simp_all add: example_streaming_def example_camera_eq)
  have d1: "1920 \<noteq> width_' example_camera \<or> 1080 \<noteq> height_' example_camera
            \<longrightarrow> (0::int) \<le> 1920 * 1080 \<and> (1920::int) * 1080 \<le> INT_MAX"
    by (simp add: INT_MAX_def)
  have d2: "1920 \<noteq> width_' example_streaming \<or> 1080 \<noteq> height_' example_streaming
            \<longrightarrow> (0::int) \<le> 1920 * 1080 \<and> (1920::int) * 1080 \<le> INT_MAX"
    by (simp add: INT_MAX_def)
  from HandoffHandler_effect [OF c h(1) d1, of example_lib 5 20 "[]"]
       HandoffHandler_effect [OF c h(2) d2, of example_lib 5 21 "[]"]
  show ?thesis
    by (simp add: HandoffHandler_def example_streaming_def example_camera_eq example_lib_def
        example_pad_def gst_structure_get_int_def gst_caps_get_structure0_def int_mul_def
        INT_MIN_def INT_MAX_def Let_def)
qed

subsection \<open>HandleGstMessage\<close>

text \<open>
  C10. Take a message that carries what the handler dereferences: its source object and
  its \<open>GError\<close> when it is a WARNING or an ERROR, and the string "filename" when it is
  an ELEMENT message with a structure named "image-done" and a callback is stored. Then
  \<open>HandleGstMessage\<close> returns \<open>GST_BUS_DROP\<close> whatever the type of the message, and
  the last thing it does is to release the message, once. Before that, for an ELEMENT
  message it calls the capture callback with the "filename" string if the message has a
  structure named "image-done" and a callback is stored, and does nothing otherwise; for
  a WARNING and for an ERROR it writes two log lines and frees the debug string and the
  error; for every other type it does nothing.
\<close>

theorem HandleGstMessage_total:
  assumes "msg_type m = GST_MESSAGE_WARNING \<or> msg_type m = GST_MESSAGE_ERROR
           \<longrightarrow> (\<exists>src err. msg_src_name m = Some src \<and> msg_gerror m = Some err)"
      and "\<forall>st cb. msg_type m = GST_MESSAGE_ELEMENT \<and> msg_structure m = Some st
             \<and> gst_structure_has_name st ''image-done'' \<and> on_notify_captured_' s = Some cb
           \<longrightarrow> (\<exists>filename. gst_structure_get_string st ''filename'' = Some filename)"
  shows "\<exists>body. HandleGstMessage s m t = Inr (GST_BUS_DROP, t @ body @ [Gst_message_unref (msg_id m)])
     \<and> Gst_message_unref (msg_id m) \<notin> set body
     \<and> (msg_type m = GST_MESSAGE_ELEMENT \<longrightarrow>
          (\<forall>st cb filename. msg_structure m = Some st \<and> gst_structure_has_name st ''image-done''
               \<and> on_notify_captured_' s = Some cb
               \<and> gst_structure_get_string st ''filename'' = Some filename
             \<longrightarrow> body = [On_notify_captured cb filename])
          \<and> (msg_structure m = None \<or> on_notify_captured_' s = None
               \<or> (\<exists>st. msg_structure m = Some st \<and> \<not> gst_structure_has_name st ''image-done'')
             \<longrightarrow> body = []))
     \<and> (msg_type m = GST_MESSAGE_WARNING \<longrightarrow>
          body = message_log ''WARNING from element '' ''Warning details: '' m \<and> body \<noteq> [])
     \<and> (msg_type m = GST_MESSAGE_ERROR \<longrightarrow>
          body = message_log ''ERROR from element '' ''Error details: '' m \<and> body \<noteq> [])
     \<and> (msg_type m \<noteq> GST_MESSAGE_ELEMENT \<and> msg_type m \<noteq> GST_MESSAGE_WARNING
          \<and> msg_type m \<noteq> GST_MESSAGE_ERROR \<longrightarrow> body = [])"
proof (cases "msg_type m = GST_MESSAGE_ELEMENT")
  case True
  show ?thesis
  proof (cases "\<exists>st cb. msg_structure m = Some st \<and> gst_structure_has_name st ''image-done''
                  \<and> on_notify_captured_' s = Some cb")
    case call: True
    then obtain st cb where 1: "msg_structure m = Some st" "gst_structure_has_name st ''image-done''"
      "on_notify_captured_' s = Some cb" by blast
    with assms(2) True obtain filename where 2: "gst_structure_get_string st ''filename'' = Some filename"
      by blast
    from True 1 2 have "HandleGstMessage s m t =
        Inr (GST_BUS_DROP, t @ [On_notify_captured cb filename] @ [Gst_message_unref (msg_id m)])"
      by (simp add: HandleGstMessage_def)
    with True 1 2 show ?thesis by auto
  next
    case False
    with True have "HandleGstMessage s m t = Inr (GST_BUS_DROP, t @ [] @ [Gst_message_unref (msg_id m)])"
      by (auto simp: HandleGstMessage_def split: option.splits bool.splits)
    with True False show ?thesis by auto
  qed
next
  case False
  with assms(1) show ?thesis
    by (cases "msg_type m")
       (auto simp: HandleGstMessage_def message_log_def split: option.splits)
qed

theorem HandleGstMessage_total_witness:
  "HandleGstMessage example_camera example_warning [] =
     Inr (GST_BUS_DROP,
          [G_printerr [Str ''WARNING from element '', Str ''source'', Str '': '', Str ''Device is busy''],
           G_printerr [Str ''Warning details: '', Str_or_null None],
           G_free None,
           G_error_free,
           Gst_message_unref 10])
   \<and> HandleGstMessage example_camera example_image_done [] =
     Inr (GST_BUS_DROP, [Gst_message_unref 9])
   \<and> HandleGstMessage (example_camera\<lparr>on_notify_captured_' := Some 8\<rparr>) example_image_done [] =
     Inr (GST_BUS_DROP, [On_notify_captured 8 ''/tmp/capture.jpg'', Gst_message_unref 9])
   \<and> HandleGstMessage example_camera example_image_done_unnamed [] =
     Inr (GST_BUS_DROP, [Gst_message_unref 9])"
proof -
  have 1: "msg_type example_warning = GST_MESSAGE_WARNING \<or> msg_type example_warning = GST_MESSAGE_ERROR
           \<longrightarrow> (\<exists>src err. msg_src_name example_warning = Some src \<and> msg_gerror example_warning = Some err)"
    by (simp add: example_warning_def)
  have 2: "msg_type example_image_done = GST_MESSAGE_WARNING
             \<or> msg_type example_image_done = GST_MESSAGE_ERROR
           \<longrightarrow> (\<exists>src err. msg_src_name example_image_done = Some src
                  \<and> msg_gerror example_image_done = Some err)"
    by (simp add: example_image_done_def)
  have 3: "msg_type example_image_done_unnamed = GST_MESSAGE_WARNING
             \<or> msg_type example_image_done_unnamed = GST_MESSAGE_ERROR
           \<longrightarrow> (\<exists>src err. msg_src_name example_image_done_unnamed = Some src
                  \<and> msg_gerror example_image_done_unnamed = Some err)"
    by (simp add: example_image_done_unnamed_def example_image_done_def)
  have f1: "\<forall>st cb. msg_type example_warning = GST_MESSAGE_ELEMENT \<and> msg_structure example_warning = Some st
             \<and> gst_structure_has_name st ''image-done'' \<and> on_notify_captured_' example_camera = Some cb
           \<longrightarrow> (\<exists>filename. gst_structure_get_string st ''filename'' = Some filename)"
    by (simp add: example_warning_def)
  have f2: "\<forall>st cb. msg_type example_image_done = GST_MESSAGE_ELEMENT
             \<and> msg_structure example_image_done = Some st
             \<and> gst_structure_has_name st ''image-done''
             \<and> on_notify_captured_' (s :: GstCamera) = Some cb
           \<longrightarrow> (\<exists>filename. gst_structure_get_string st ''filename'' = Some filename)" for s
    by (auto simp: example_image_done_def gst_structure_get_string_def)
  have f3: "\<forall>st cb. msg_type example_image_done_unnamed = GST_MESSAGE_ELEMENT
             \<and> msg_structure example_image_done_unnamed = Some st
             \<and> gst_structure_has_name st ''image-done''
             \<and> on_notify_captured_' example_camera = Some cb
           \<longrightarrow> (\<exists>filename. gst_structure_get_string st ''filename'' = Some filename)"
    by (simp add: example_camera_eq)
  from HandleGstMessage_total [OF 1 f1, of "[]"]
       HandleGstMessage_total [OF 2 f2 [of example_camera], of "[]"]
       HandleGstMessage_total [OF 2 f2 [of "example_camera\<lparr>on_notify_captured_' := Some 8\<rparr>"], of "[]"]
       HandleGstMessage_total [OF 3 f3, of "[]"]
  show ?thesis
    by (simp add: HandleGstMessage_def example_warning_def example_image_done_def
        example_image_done_unnamed_def example_camera_eq
        gst_structure_has_name_def gst_structure_get_string_def)
qed

end
